theory Spec2Isabelle
  imports Complex_Main
begin

section \<open>The escrow ledger and trade lifecycle of the wallet backend\<close>

text \<open>
  The request handlers of the backend are embedded as functions from the store before the
  request to a response and the store after it. A handler that answers with an error still
  returns the store it leaves behind, so that a write made before a failed check or a refused
  statement is visible.

  Conventions of the embedding:
  \<^item> the store keeps decimals, as rationals: a \<open>NUMERIC(p, s)\<close> column rounds what is written
    to \<open>s\<close> decimals, half away from zero, and refuses a value that then needs more than
    \<open>p - s\<close> integer digits; sums and differences inside a statement are exact;
  \<^item> the host computes in IEEE doubles: a finite double is the rational it denotes, every
    operation rounds to the nearest double, ties to even, and the infinities and NaN are
    values; a number goes from the host to the store as the shortest decimal that reads back
    as the same double, and from the store to the host as the nearest double;
  \<^item> \<open>createOffer\<close>, \<open>cancelOffer\<close>, \<open>release\<close> and the funding operation are embedded with
    these numbers and with the statements that the store can refuse; \<open>acceptOffer\<close>,
    \<open>cancelTrade\<close> and \<open>resolveDispute\<close> compute with the exact values, which is what the
    properties stated of them need;
  \<^item> a JSON number of a request is the decimal it is written as;
  \<^item> points in time are milliseconds since the epoch, every request reads the clock once,
    and the process runs in UTC;
  \<^item> status and type columns are the strings the source compares, one byte a character;
  \<^item> the \<open>created_at\<close> and \<open>updated_at\<close> columns, which no handler below reads, are left out;
  \<^item> requests run one at a time, and no two statements of a request are in one transaction
    (\<open>db.transaction\<close> opens its transaction on a connection of its own, while the
    statements go through the pool): a refused statement ends the request with an error
    and leaves the earlier writes in place.
\<close>

subsection \<open>Numbers of the host\<close>

text \<open>
  A number of the host: a finite double, given by the rational it denotes, an infinity or
  NaN. Zero has no sign here.
\<close>

datatype jsnum = NaN | NegInf | Fin rat | PosInf

definition ipow :: "rat \<Rightarrow> int \<Rightarrow> rat" where
  "ipow b e = (if 0 \<le> e then b ^ nat e else 1 / b ^ nat (- e))"

text \<open>
  \<open>ilog b x\<close> is the exponent \<open>e\<close> with \<open>b ^ e \<le> x < b ^ (e + 1)\<close>, for \<open>0 < x\<close>; it is found
  by scaling \<open>x\<close> into \<open>[1, b)\<close>, in at most 1100 steps, which is all that a double needs.
\<close>

fun scale_up :: "rat \<Rightarrow> rat \<Rightarrow> int \<Rightarrow> nat \<Rightarrow> int" where
  "scale_up b x e fuel =
     (if fuel = 0 then e else if x < 1 then scale_up b (x * b) (e - 1) (fuel - 1) else e)"

fun scale_down :: "rat \<Rightarrow> rat \<Rightarrow> int \<Rightarrow> nat \<Rightarrow> int" where
  "scale_down b x e fuel =
     (if fuel = 0 then e else if b \<le> x then scale_down b (x / b) (e + 1) (fuel - 1) else e)"

definition ilog :: "rat \<Rightarrow> rat \<Rightarrow> int" where
  "ilog b x = (if x < 1 then scale_up b x 0 1100 else scale_down b x 0 1100)"

definition round_half_even :: "rat \<Rightarrow> int" where
  "round_half_even x =
     (let f = \<lfloor>x\<rfloor>; r = x - of_int f
      in if r < 1 / 2 then f else if 1 / 2 < r then f + 1 else if even f then f else f + 1)"

text \<open>
  The double nearest to a positive rational: 53 significant bits, the exponent no lower than
  that of the subnormal numbers.
\<close>

definition round_magnitude :: "rat \<Rightarrow> rat" where
  "round_magnitude x =
     (let e = max (ilog 2 x) (- 1022);
          ulp = ipow 2 (e - 52)
      in of_int (round_half_even (x / ulp)) * ulp)"

definition round_double :: "rat \<Rightarrow> jsnum" where
  "round_double x =
     (if x = 0 then Fin 0
      else if 0 < x
      then (let y = round_magnitude x in if ipow 2 1024 \<le> y then PosInf else Fin y)
      else (let y = round_magnitude (- x) in if ipow 2 1024 \<le> y then NegInf else Fin (- y)))"

fun fneg :: "jsnum \<Rightarrow> jsnum" where
  "fneg NaN = NaN"
| "fneg NegInf = PosInf"
| "fneg PosInf = NegInf"
| "fneg (Fin x) = Fin (- x)"

text \<open>\<open>a + b\<close>, \<open>a - b\<close>, \<open>a * b\<close>, \<open>a / b\<close>, \<open>a < b\<close> and \<open>a <= b\<close> of the host\<close>

fun fadd :: "jsnum \<Rightarrow> jsnum \<Rightarrow> jsnum" where
  "fadd (Fin x) (Fin y) = round_double (x + y)"
| "fadd NaN b = NaN"
| "fadd a NaN = NaN"
| "fadd PosInf NegInf = NaN"
| "fadd NegInf PosInf = NaN"
| "fadd PosInf b = PosInf"
| "fadd NegInf b = NegInf"
| "fadd a PosInf = PosInf"
| "fadd a NegInf = NegInf"

definition fsub :: "jsnum \<Rightarrow> jsnum \<Rightarrow> jsnum" where
  "fsub a b = fadd a (fneg b)"

fun fmul :: "jsnum \<Rightarrow> jsnum \<Rightarrow> jsnum" where
  "fmul (Fin x) (Fin y) = round_double (x * y)"
| "fmul NaN b = NaN"
| "fmul a NaN = NaN"
| "fmul PosInf (Fin y) = (if y = 0 then NaN else if 0 < y then PosInf else NegInf)"
| "fmul NegInf (Fin y) = (if y = 0 then NaN else if 0 < y then NegInf else PosInf)"
| "fmul (Fin x) PosInf = (if x = 0 then NaN else if 0 < x then PosInf else NegInf)"
| "fmul (Fin x) NegInf = (if x = 0 then NaN else if 0 < x then NegInf else PosInf)"
| "fmul PosInf PosInf = PosInf"
| "fmul NegInf NegInf = PosInf"
| "fmul PosInf NegInf = NegInf"
| "fmul NegInf PosInf = NegInf"

fun fdiv :: "jsnum \<Rightarrow> jsnum \<Rightarrow> jsnum" where
  "fdiv (Fin x) (Fin y) =
     (if y = 0 then (if x = 0 then NaN else if 0 < x then PosInf else NegInf)
      else round_double (x / y))"
| "fdiv NaN b = NaN"
| "fdiv a NaN = NaN"
| "fdiv PosInf (Fin y) = (if 0 \<le> y then PosInf else NegInf)"
| "fdiv NegInf (Fin y) = (if 0 \<le> y then NegInf else PosInf)"
| "fdiv (Fin x) PosInf = Fin 0"
| "fdiv (Fin x) NegInf = Fin 0"
| "fdiv PosInf b = NaN"
| "fdiv NegInf b = NaN"

fun flt :: "jsnum \<Rightarrow> jsnum \<Rightarrow> bool" where
  "flt (Fin x) (Fin y) = (x < y)"
| "flt NaN b = False"
| "flt a NaN = False"
| "flt PosInf b = False"
| "flt a NegInf = False"
| "flt NegInf b = True"
| "flt a PosInf = True"

definition fle :: "jsnum \<Rightarrow> jsnum \<Rightarrow> bool" where
  "fle a b = (flt a b \<or> (a = b \<and> a \<noteq> NaN))"

text \<open>\<open>!x\<close> of a number: zero and NaN are false.\<close>

definition falsy :: "jsnum \<Rightarrow> bool" where
  "falsy a = (a = Fin 0 \<or> a = NaN)"

text \<open>
  \<open>String(x)\<close> of a finite double, as the decimal it denotes: the digits are as few as read
  back as \<open>x\<close>, at most 17, and among equally few the decimal nearest to \<open>x\<close>. With \<open>n\<close> the
  number of integer digits of \<open>x\<close>, \<open>candidate x n k\<close> tries the two decimals of \<open>k\<close> digits
  around \<open>x\<close>.
\<close>

definition candidate :: "rat \<Rightarrow> int \<Rightarrow> nat \<Rightarrow> rat option" where
  "candidate x n k =
     (let u = ipow 10 (n - int k);
          m = \<lfloor>x / u\<rfloor>;
          lo = of_int m * u;
          hi = lo + u;
          lo_ok = (round_double lo = Fin x);
          hi_ok = (round_double hi = Fin x)
      in if lo_ok \<and> hi_ok
         then Some (if x - lo < hi - x then lo else if hi - x < x - lo then hi
                    else if even m then lo else hi)
         else if lo_ok then Some lo
         else if hi_ok then Some hi
         else None)"

fun shortest :: "rat \<Rightarrow> int \<Rightarrow> nat \<Rightarrow> nat \<Rightarrow> rat" where
  "shortest x n k fuel =
     (if fuel = 0 then x
      else case candidate x n k of Some c \<Rightarrow> c | None \<Rightarrow> shortest x n (k + 1) (fuel - 1))"

definition toDecimal :: "rat \<Rightarrow> rat" where
  "toDecimal x =
     (if x = 0 then 0
      else if 0 < x then shortest x (ilog 10 x + 1) 1 17
      else - shortest (- x) (ilog 10 (- x) + 1) 1 17)"

subsection \<open>Columns of the store\<close>

text \<open>Rounding to \<open>sc\<close> decimals, half away from zero.\<close>

definition round_scale :: "nat \<Rightarrow> rat \<Rightarrow> rat" where
  "round_scale sc x =
     (if 0 \<le> x then of_int \<lfloor>x * 10 ^ sc + 1 / 2\<rfloor> / 10 ^ sc
      else - (of_int \<lfloor>- x * 10 ^ sc + 1 / 2\<rfloor> / 10 ^ sc))"

text \<open>What a \<open>NUMERIC(p, sc)\<close> column keeps of a decimal; \<open>None\<close> when it refuses it.\<close>

definition numeric_column :: "nat \<Rightarrow> nat \<Rightarrow> rat \<Rightarrow> rat option" where
  "numeric_column p sc x =
     (let r = round_scale sc x in if \<bar>r\<bar> < 10 ^ (p - sc) then Some r else None)"

text \<open>
  A number of the host as a parameter of a statement: the decimal of its text. No column
  with a precision takes an infinity, so the statement fails. NaN has no decimal: a handler
  below can form it only from a fee rate beyond the doubles, which the settings endpoint,
  accepting 0 to 100, never stores, and the statement fails here as well.
\<close>

definition numeric_param :: "jsnum \<Rightarrow> rat option" where
  "numeric_param v = (case v of Fin x \<Rightarrow> Some (toDecimal x) | NaN \<Rightarrow> None
                      | NegInf \<Rightarrow> None | PosInf \<Rightarrow> None)"

definition store_number :: "nat \<Rightarrow> nat \<Rightarrow> jsnum \<Rightarrow> rat option" where
  "store_number p sc v =
     (case numeric_param v of None \<Rightarrow> None | Some d \<Rightarrow> numeric_column p sc d)"

text \<open>
  What a \<open>VARCHAR(n)\<close> column keeps of a string: a longer string is cut when all that is cut
  off are spaces, and is refused otherwise.
\<close>

definition varchar :: "nat \<Rightarrow> string \<Rightarrow> string option" where
  "varchar n str =
     (if length str \<le> n then Some str
      else if list_all (\<lambda>c. c = CHR '' '') (drop n str) then Some (take n str)
      else None)"

subsection \<open>Tables\<close>

type_synonym time = int

datatype error =
    ValidationError
  | NotFound
  | Forbidden
  | InvalidState
  | InsufficientFunds
  | InsufficientRemaining
  | Conflict
  | PaymentNotUploaded
  | InvalidPaymentTimestamp
  | WindowExpired
  | InvalidPeriod
  | InvalidTimeValue
  | InternalError

record user =
  u_id :: nat
  u_fda_user_id :: "string option"
  u_email :: "string option"
  u_phone :: "string option"

record offer =
  o_id :: nat
  o_maker_id :: nat
  o_type :: string
  o_asset_symbol :: string
  o_fiat_currency :: string
  o_price :: rat
  o_amount :: rat
  o_remaining :: rat
  o_min_limit :: "rat option"
  o_max_limit :: "rat option"
  o_payment_methods :: "string option"
  o_status :: string
  o_cancelled_at :: "time option"

text \<open>A stored timestamp, as \<open>new Date(...)\<close> reads it back: a point in time or an invalid date.\<close>

datatype timestamp = Date time | InvalidDate

record trade =
  t_id :: nat
  t_offer_id :: nat
  t_buyer_id :: nat
  t_seller_id :: nat
  t_amount :: rat
  t_price :: rat
  t_asset_symbol :: string
  t_fiat_currency :: string
  t_status :: string
  t_paid_at :: "timestamp option"
  t_released_at :: "time option"
  t_cancelled_at :: "time option"
  t_payment_screenshot :: "string option"
  t_fee_amount :: "rat option"
  t_fee_rate :: "rat option"

record dispute =
  d_id :: nat
  d_trade_id :: nat
  d_raised_by_id :: nat
  d_status :: string
  d_reason :: string
  d_resolution_note :: "string option"
  d_resolved_by_id :: "nat option"
  d_resolved_at :: "time option"

record holding =
  h_id :: nat
  h_user_id :: nat
  h_amount :: rat
  h_holding_period :: string
  h_expires_at :: time
  h_created_at :: time

text \<open>
  The note of a transfer is a formatted string in the source; the model keeps the values
  that are formatted into it: the trade, its amount and the fee.
\<close>

datatype transfer_note = TradeNote nat rat jsnum | DisputeReleaseNote nat rat rat

record transfer =
  x_id :: nat
  x_from_user_id :: nat
  x_to_user_id :: nat
  x_amount :: rat
  x_note :: transfer_note

text \<open>
  \<open>internal_balances\<close> has one row per user (\<open>user_id\<close> is UNIQUE), \<open>settings\<close> one row per
  key; both are maps. A setting's value is the number \<open>parseFloat\<close> reads from its text.
  The other tables are lists of rows in insertion order.
\<close>

record db =
  users :: "user list"
  internal_balances :: "nat \<rightharpoonup> rat"
  offers :: "offer list"
  trades :: "trade list"
  disputes :: "dispute list"
  fda_holdings :: "holding list"
  internal_transfers :: "transfer list"
  settings :: "string \<rightharpoonup> rat"

subsection \<open>Statements\<close>

text \<open>The id a SERIAL column gives the next row: one that no row of the table has.\<close>

definition new_id :: "nat list \<Rightarrow> nat" where
  "new_id ids = Suc (fold max ids 0)"

text \<open>\<open>SELECT * FROM offers WHERE id = ?\<close>\<close>

definition get_offer :: "db \<Rightarrow> nat \<Rightarrow> offer option" where
  "get_offer s i = find (\<lambda>r. o_id r = i) (offers s)"

definition update_offer :: "nat \<Rightarrow> (offer \<Rightarrow> offer) \<Rightarrow> db \<Rightarrow> db" where
  "update_offer i f s = s\<lparr>offers := map (\<lambda>r. if o_id r = i then f r else r) (offers s)\<rparr>"

text \<open>\<open>SELECT * FROM trades WHERE id = ?\<close>\<close>

definition get_trade :: "db \<Rightarrow> nat \<Rightarrow> trade option" where
  "get_trade s i = find (\<lambda>t. t_id t = i) (trades s)"

definition update_trade :: "nat \<Rightarrow> (trade \<Rightarrow> trade) \<Rightarrow> db \<Rightarrow> db" where
  "update_trade i f s = s\<lparr>trades := map (\<lambda>t. if t_id t = i then f t else t) (trades s)\<rparr>"

text \<open>\<open>SELECT * FROM disputes WHERE id = ?\<close> and \<open>... WHERE trade_id = ?\<close>\<close>

definition get_dispute :: "db \<Rightarrow> nat \<Rightarrow> dispute option" where
  "get_dispute s i = find (\<lambda>d. d_id d = i) (disputes s)"

definition get_dispute_of_trade :: "db \<Rightarrow> nat \<Rightarrow> dispute option" where
  "get_dispute_of_trade s i = find (\<lambda>d. d_trade_id d = i) (disputes s)"

definition update_dispute :: "nat \<Rightarrow> (dispute \<Rightarrow> dispute) \<Rightarrow> db \<Rightarrow> db" where
  "update_dispute i f s =
     s\<lparr>disputes := map (\<lambda>d. if d_id d = i then f d else d) (disputes s)\<rparr>"

text \<open>
  \<open>const row = SELECT fda_balance ...; row ? parseFloat(row.fda_balance) : 0\<close>, the balance
  a handler works with (\<open>totalBalance\<close> of \<open>GET /internal/balance\<close>).
\<close>

definition fda_balance :: "db \<Rightarrow> nat \<Rightarrow> rat" where
  "fda_balance s u = (case internal_balances s u of None \<Rightarrow> 0 | Some b \<Rightarrow> b)"

text \<open>\<open>if (!balanceRow) INSERT INTO internal_balances (user_id, fda_balance, ...) VALUES (?, 0, ...)\<close>\<close>

definition ensure_balance_row :: "nat \<Rightarrow> db \<Rightarrow> db" where
  "ensure_balance_row u s =
     (case internal_balances s u of
        None \<Rightarrow> s\<lparr>internal_balances := (internal_balances s)(u \<mapsto> 0)\<rparr>
      | Some b \<Rightarrow> s)"

text \<open>\<open>UPDATE internal_balances SET fda_balance = fda_balance + ? WHERE user_id = ?\<close>\<close>

definition add_balance :: "nat \<Rightarrow> rat \<Rightarrow> db \<Rightarrow> db" where
  "add_balance u x s =
     (case internal_balances s u of
        None \<Rightarrow> s
      | Some b \<Rightarrow> s\<lparr>internal_balances := (internal_balances s)(u \<mapsto> b + x)\<rparr>)"

text \<open>
  \<open>UPDATE internal_balances SET fda_balance = fda_balance + ? WHERE user_id = ?\<close> on the
  column \<open>NUMERIC(30, 18)\<close>, with a decimal as parameter; \<open>None\<close> when the store refuses it.
\<close>

definition credit_balance :: "nat \<Rightarrow> rat \<Rightarrow> db \<Rightarrow> db option" where
  "credit_balance u d s =
     (case internal_balances s u of
        None \<Rightarrow> Some s
      | Some b \<Rightarrow>
          (case numeric_column 30 18 (b + d) of
             None \<Rightarrow> None
           | Some b' \<Rightarrow> Some (s\<lparr>internal_balances := (internal_balances s)(u \<mapsto> b')\<rparr>)))"

text \<open>\<open>INSERT INTO internal_balances (user_id, fda_balance, updated_at) VALUES (?, ?, ?)\<close>\<close>

definition insert_balance :: "nat \<Rightarrow> rat \<Rightarrow> db \<Rightarrow> db option" where
  "insert_balance u d s =
     (case numeric_column 30 18 d of
        None \<Rightarrow> None
      | Some b \<Rightarrow> Some (s\<lparr>internal_balances := (internal_balances s)(u \<mapsto> b)\<rparr>))"

text \<open>
  \<open>SELECT COALESCE(SUM(remaining), 0) FROM offers
   WHERE maker_id = ? AND type = 'SELL' AND status = 'OPEN' AND asset_symbol = 'FDA'\<close>
\<close>

definition locked :: "db \<Rightarrow> nat \<Rightarrow> rat" where
  "locked s u =
     sum_list (map o_remaining
       (filter (\<lambda>r. o_maker_id r = u \<and> o_type r = ''SELL'' \<and> o_status r = ''OPEN''
                     \<and> o_asset_symbol r = ''FDA'') (offers s)))"

text \<open>
  \<open>SELECT COALESCE(SUM(amount), 0) FROM fda_holdings
   WHERE user_id = ? AND expires_at > CURRENT_TIMESTAMP\<close>
\<close>

definition holdingLocked :: "db \<Rightarrow> nat \<Rightarrow> time \<Rightarrow> rat" where
  "holdingLocked s u now =
     sum_list (map h_amount
       (filter (\<lambda>h. h_user_id h = u \<and> now < h_expires_at h) (fda_holdings s)))"

text \<open>\<open>holdingSetting ? parseFloat(holdingSetting.value) : 0\<close> for the key \<open>holding_fda_amount\<close>\<close>

definition holdingAmount :: "db \<Rightarrow> rat" where
  "holdingAmount s = (case settings s ''holding_fda_amount'' of None \<Rightarrow> 0 | Some v \<Rightarrow> v)"

text \<open>\<open>available = balance - locked\<close> and \<open>usableBalance = available - holdingAmount - holdingLocked\<close>\<close>

definition available :: "db \<Rightarrow> nat \<Rightarrow> rat" where
  "available s u = fda_balance s u - locked s u"

definition usableBalance :: "db \<Rightarrow> nat \<Rightarrow> time \<Rightarrow> rat" where
  "usableBalance s u now = available s u - holdingAmount s - holdingLocked s u now"

subsection \<open>Strings of the host\<close>

text \<open>
  A character is one byte: \<open>toUpperCase\<close> acts on the ASCII letters, \<open>trim\<close> strips the white
  space of Latin-1 from both ends.
\<close>

definition upper_char :: "char \<Rightarrow> char" where
  "upper_char c =
     (let n = (of_char c :: nat) in if 97 \<le> n \<and> n \<le> 122 then char_of (n - 32) else c)"

definition toUpperCase :: "string \<Rightarrow> string" where
  "toUpperCase str = map upper_char str"

definition is_space :: "char \<Rightarrow> bool" where
  "is_space c = ((of_char c :: nat) \<in> {9, 10, 11, 12, 13, 32, 160})"

definition trim :: "string \<Rightarrow> string" where
  "trim str = rev (dropWhile is_space (rev (dropWhile is_space str)))"

subsection \<open>Offer book\<close>

record offer_request =
  rq_type :: string
  rq_assetSymbol :: string
  rq_fiatCurrency :: string
  rq_price :: rat
  rq_amount :: rat
  rq_minLimit :: "rat option"
  rq_maxLimit :: "rat option"
  rq_paymentMethods :: "string option"

text \<open>What a nullable \<open>NUMERIC(20, 8)\<close> column keeps of \<open>x ?? null\<close>.\<close>

definition store_limit :: "rat option \<Rightarrow> rat option option" where
  "store_limit x =
     (case x of
        None \<Rightarrow> Some None
      | Some l \<Rightarrow> map_option Some (store_number 20 8 (round_double l)))"

text \<open>
  \<open>INSERT INTO offers (...) VALUES (...)\<close> with the amount for both \<open>amount\<close> and \<open>remaining\<close>,
  the status taking its default \<open>OPEN\<close>; then \<open>SELECT * FROM offers WHERE id = ?\<close>. The
  columns are \<open>asset_symbol VARCHAR(50)\<close>, \<open>fiat_currency VARCHAR(50)\<close> and \<open>NUMERIC(20, 8)\<close> for
  price, amount, remaining and the limits. When the store refuses the row, the handler
  answers with its error for a failed request.
\<close>

definition insert_offer :: "nat \<Rightarrow> string \<Rightarrow> offer_request \<Rightarrow> db \<Rightarrow> (error + offer) \<times> db" where
  "insert_offer uid normalizedType rq s =
     (case varchar 50 (rq_assetSymbol rq) of
        None \<Rightarrow> (Inl InternalError, s)
      | Some asset \<Rightarrow>
     (case varchar 50 (rq_fiatCurrency rq) of
        None \<Rightarrow> (Inl InternalError, s)
      | Some fiat \<Rightarrow>
     (case store_number 20 8 (round_double (rq_price rq)) of
        None \<Rightarrow> (Inl InternalError, s)
      | Some price \<Rightarrow>
     (case store_number 20 8 (round_double (rq_amount rq)) of
        None \<Rightarrow> (Inl InternalError, s)
      | Some amount \<Rightarrow>
     (case store_limit (rq_minLimit rq) of
        None \<Rightarrow> (Inl InternalError, s)
      | Some minLimit \<Rightarrow>
     (case store_limit (rq_maxLimit rq) of
        None \<Rightarrow> (Inl InternalError, s)
      | Some maxLimit \<Rightarrow>
          (let created = \<lparr>o_id = new_id (map o_id (offers s)), o_maker_id = uid,
                          o_type = normalizedType, o_asset_symbol = asset,
                          o_fiat_currency = fiat, o_price = price,
                          o_amount = amount, o_remaining = amount,
                          o_min_limit = minLimit, o_max_limit = maxLimit,
                          o_payment_methods = rq_paymentMethods rq, o_status = ''OPEN'',
                          o_cancelled_at = None\<rparr>
           in (Inr created, s\<lparr>offers := offers s @ [created]\<rparr>))))))))"

text \<open>
  \<open>POST /offers\<close>. The balance, the two sums and the holding floor are read with
  \<open>parseFloat\<close>, and \<open>available\<close> and \<open>usableBalance\<close> are differences of doubles. The debit is
  \<open>UPDATE internal_balances SET fda_balance = fda_balance - ?\<close> with \<open>amountNum\<close>.
\<close>

definition createOffer :: "db \<Rightarrow> nat \<Rightarrow> offer_request \<Rightarrow> time \<Rightarrow> (error + offer) \<times> db" where
  "createOffer s uid rq now =
     (if rq_type rq = [] \<or> rq_assetSymbol rq = [] \<or> rq_fiatCurrency rq = []
         \<or> falsy (round_double (rq_price rq)) \<or> falsy (round_double (rq_amount rq))
      then (Inl ValidationError, s)
      else
        let normalizedType = trim (toUpperCase (rq_type rq)) in
        if normalizedType \<noteq> ''BUY'' \<and> normalizedType \<noteq> ''SELL'' then (Inl ValidationError, s)
        else if normalizedType = ''BUY'' then insert_offer uid normalizedType rq s
        else if normalizedType = ''SELL'' \<and> rq_assetSymbol rq = ''FDA'' then
          (let s1 = ensure_balance_row uid s;
               balance = round_double (fda_balance s1 uid);
               lockedNum = round_double (locked s1 uid);
               holdingLockedNum = round_double (holdingLocked s1 uid now);
               availableNum = fsub balance lockedNum;
               holdingAmountNum = round_double (holdingAmount s1);
               amountNum = round_double (rq_amount rq);
               usable = fsub (fsub availableNum holdingAmountNum) holdingLockedNum
           in if flt balance amountNum then (Inl InsufficientFunds, s1)
              else if flt usable amountNum then (Inl InsufficientFunds, s1)
              else
                (case numeric_param amountNum of
                   None \<Rightarrow> (Inl InternalError, s1)
                 | Some d \<Rightarrow>
                     (case credit_balance uid (- d) s1 of
                        None \<Rightarrow> (Inl InternalError, s1)
                      | Some s2 \<Rightarrow> insert_offer uid normalizedType rq s2)))
        else insert_offer uid normalizedType rq s)"

text \<open>
  \<open>POST /offers/:id/cancel\<close>; the credit has \<open>offer.remaining\<close>, the decimal as the store
  returned it, as its parameter.
\<close>

definition cancelOffer :: "db \<Rightarrow> nat \<Rightarrow> nat \<Rightarrow> time \<Rightarrow> (error + offer option) \<times> db" where
  "cancelOffer s uid oid now =
     (case get_offer s oid of
        None \<Rightarrow> (Inl NotFound, s)
      | Some offer \<Rightarrow>
          if o_maker_id offer \<noteq> uid then (Inl Forbidden, s)
          else if o_status offer \<noteq> ''OPEN'' then (Inl InvalidState, s)
          else
            (case (if o_type offer = ''SELL'' \<and> o_asset_symbol offer = ''FDA''
                   then (case internal_balances s uid of
                           None \<Rightarrow> insert_balance uid (o_remaining offer) s
                         | Some b \<Rightarrow> credit_balance uid (o_remaining offer) s)
                   else Some s) of
               None \<Rightarrow> (Inl InternalError, s)
             | Some s1 \<Rightarrow>
                 (let s2 = update_offer oid
                             (\<lambda>r. r\<lparr>o_status := ''CANCELLED'', o_cancelled_at := Some now\<rparr>) s1
                  in (Inr (get_offer s2 oid), s2))))"

subsection \<open>Trade engine\<close>

text \<open>
  \<open>INSERT INTO trades (...) VALUES (..., 'PENDING')\<close>, then
  \<open>UPDATE offers SET remaining = remaining - ? WHERE id = ?\<close>; the columns \<open>fee_amount\<close> and
  \<open>fee_rate\<close> take their default 0.
\<close>

definition insert_trade :: "offer \<Rightarrow> nat \<Rightarrow> nat \<Rightarrow> rat \<Rightarrow> db \<Rightarrow> (error + trade) \<times> db" where
  "insert_trade offer buyerId sellerId amountNum s =
     (let created = \<lparr>t_id = new_id (map t_id (trades s)), t_offer_id = o_id offer,
                     t_buyer_id = buyerId, t_seller_id = sellerId, t_amount = amountNum,
                     t_price = o_price offer, t_asset_symbol = o_asset_symbol offer,
                     t_fiat_currency = o_fiat_currency offer, t_status = ''PENDING'',
                     t_paid_at = None, t_released_at = None, t_cancelled_at = None,
                     t_payment_screenshot = None, t_fee_amount = Some 0, t_fee_rate = Some 0\<rparr>;
          s1 = s\<lparr>trades := trades s @ [created]\<rparr>;
          s2 = update_offer (o_id offer) (\<lambda>r. r\<lparr>o_remaining := o_remaining r - amountNum\<rparr>) s1
      in (Inr created, s2))"

text \<open>\<open>POST /trades\<close>\<close>

definition acceptOffer :: "db \<Rightarrow> nat \<Rightarrow> nat \<Rightarrow> rat \<Rightarrow> time \<Rightarrow> (error + trade) \<times> db" where
  "acceptOffer s uid offerId amountNum now =
     (if offerId = 0 then (Inl ValidationError, s)
      else if amountNum \<le> 0 then (Inl ValidationError, s)
      else
        case get_offer s offerId of
          None \<Rightarrow> (Inl NotFound, s)
        | Some offer \<Rightarrow>
            if o_status offer \<noteq> ''OPEN'' then (Inl NotFound, s)
            else if o_remaining offer < amountNum then (Inl InsufficientRemaining, s)
            else
              let buyerId = (if o_type offer = ''SELL'' then uid else o_maker_id offer);
                  sellerId = (if o_type offer = ''SELL'' then o_maker_id offer else uid)
              in if o_type offer = ''BUY'' \<and> o_asset_symbol offer = ''FDA'' then
                   (let s1 = ensure_balance_row uid s
                    in if fda_balance s1 uid < amountNum then (Inl InsufficientFunds, s1)
                       else if usableBalance s1 uid now < amountNum
                       then (Inl InsufficientFunds, s1)
                       else insert_trade offer buyerId sellerId amountNum
                              (add_balance uid (- amountNum) s1))
                 else insert_trade offer buyerId sellerId amountNum s)"

text \<open>\<open>POST /trades/:id/mark-paid\<close>; \<open>payment_screenshot || null\<close> stores no empty string.\<close>

definition markPaid :: "db \<Rightarrow> nat \<Rightarrow> nat \<Rightarrow> string option \<Rightarrow> time \<Rightarrow> (error + trade) \<times> db" where
  "markPaid s uid tid payment_screenshot now =
     (case get_trade s tid of
        None \<Rightarrow> (Inl NotFound, s)
      | Some trade \<Rightarrow>
          if t_buyer_id trade \<noteq> uid then (Inl Forbidden, s)
          else
            let shot = (case payment_screenshot of
                          None \<Rightarrow> None
                        | Some p \<Rightarrow> if p = [] then None else Some p);
                s1 = update_trade tid
                       (\<lambda>t. t\<lparr>t_status := ''PAID_PENDING_RELEASE'', t_paid_at := Some (Date now),
                               t_payment_screenshot := shot\<rparr>) s
            in (case get_trade s1 tid of
                  None \<Rightarrow> (Inl InternalError, s1)
                | Some updatedTrade \<Rightarrow> (Inr updatedTrade, s1)))"

text \<open>\<open>INSERT INTO internal_transfers (from_user_id, to_user_id, amount, note) VALUES (...)\<close>\<close>

definition insert_transfer :: "nat \<Rightarrow> nat \<Rightarrow> rat \<Rightarrow> transfer_note \<Rightarrow> db \<Rightarrow> db" where
  "insert_transfer from_id to_id amt n s =
     s\<lparr>internal_transfers := internal_transfers s @
         [\<lparr>x_id = new_id (map x_id (internal_transfers s)), x_from_user_id = from_id,
           x_to_user_id = to_id, x_amount = amt, x_note = n\<rparr>]\<rparr>"

text \<open>\<open>feeSetting ? parseFloat(feeSetting.value) : 0\<close> for the key \<open>p2p_fee_rate\<close>\<close>

definition feeRatePercent :: "db \<Rightarrow> jsnum" where
  "feeRatePercent s =
     (case settings s ''p2p_fee_rate'' of None \<Rightarrow> Fin 0 | Some v \<Rightarrow> round_double v)"

text \<open>
  \<open>POST /trades/:id/release\<close>. The fee and the payout are products and differences of
  doubles. Three statements follow the row of the buyer: the credit of \<open>amountToBuyer\<close> on
  \<open>NUMERIC(30, 18)\<close>, the transfer with its amount on \<open>NUMERIC(30, 18)\<close>, and the trade with
  \<open>fee_amount NUMERIC(20, 8)\<close> and \<open>fee_rate NUMERIC(10, 6)\<close>.
\<close>

definition release :: "db \<Rightarrow> nat \<Rightarrow> nat \<Rightarrow> time \<Rightarrow> (error + trade option) \<times> db" where
  "release s uid tradeId now =
     (case get_trade s tradeId of
        None \<Rightarrow> (Inl NotFound, s)
      | Some trade \<Rightarrow>
          if t_seller_id trade \<noteq> uid then (Inl Forbidden, s)
          else if t_status trade \<noteq> ''PAID_PENDING_RELEASE'' then (Inl InvalidState, s)
          else
            let P2P_FEE_RATE = fdiv (feeRatePercent s) (Fin 100);
                fee = fmul (round_double (t_amount trade)) P2P_FEE_RATE;
                amountToBuyer = fsub (round_double (t_amount trade)) fee;
                s1 = ensure_balance_row (t_buyer_id trade) s
            in
              (case numeric_param amountToBuyer of
                 None \<Rightarrow> (Inl InternalError, s1)
               | Some payout \<Rightarrow>
              (case credit_balance (t_buyer_id trade) payout s1 of
                 None \<Rightarrow> (Inl InternalError, s1)
               | Some s2 \<Rightarrow>
              (case numeric_column 30 18 payout of
                 None \<Rightarrow> (Inl InternalError, s2)
               | Some transferred \<Rightarrow>
                   (let s3 = insert_transfer (t_seller_id trade) (t_buyer_id trade) transferred
                               (TradeNote tradeId (t_amount trade) fee) s2
                    in
                      (case store_number 20 8 fee of
                         None \<Rightarrow> (Inl InternalError, s3)
                       | Some fee_amount \<Rightarrow>
                      (case store_number 10 6 P2P_FEE_RATE of
                         None \<Rightarrow> (Inl InternalError, s3)
                       | Some fee_rate \<Rightarrow>
                           (let s4 = update_trade tradeId
                                       (\<lambda>t. t\<lparr>t_status := ''COMPLETED'',
                                               t_released_at := Some now,
                                               t_fee_amount := Some fee_amount,
                                               t_fee_rate := Some fee_rate\<rparr>) s3
                            in (Inr (get_trade s4 tradeId), s4)))))))))"


subsection \<open>Dispute arbiter\<close>

text \<open>
  The window of a buyer's dispute: \<open>deadline = paid_at + 2 * 60 * 60 * 1000\<close> and
  \<open>isExpired = now > deadline\<close>; \<open>None\<close> lets the request go on.
\<close>

definition dispute_window :: "trade \<Rightarrow> bool \<Rightarrow> time \<Rightarrow> error option" where
  "dispute_window trade isBuyer now =
     (if isBuyer \<and> t_status trade = ''PAID_PENDING_RELEASE'' then
        (case t_paid_at trade of
           None \<Rightarrow> Some PaymentNotUploaded
         | Some InvalidDate \<Rightarrow> Some InvalidPaymentTimestamp
         | Some (Date paidAt) \<Rightarrow>
             let deadline = paidAt + 2 * 60 * 60 * 1000;
                 isExpired = (deadline < now)
             in if isExpired then Some WindowExpired else None)
      else None)"

text \<open>\<open>POST /trades/:id/disputes\<close>\<close>

definition openDispute :: "db \<Rightarrow> nat \<Rightarrow> nat \<Rightarrow> string \<Rightarrow> time \<Rightarrow> (error + dispute option) \<times> db" where
  "openDispute s uid tid reason now =
     (if reason = [] then (Inl ValidationError, s)
      else
        case get_trade s tid of
          None \<Rightarrow> (Inl NotFound, s)
        | Some trade \<Rightarrow>
            let isBuyer = (t_buyer_id trade = uid);
                isSeller = (t_seller_id trade = uid)
            in if \<not> isBuyer \<and> \<not> isSeller then (Inl Forbidden, s)
               else
                 (case dispute_window trade isBuyer now of
                    Some e \<Rightarrow> (Inl e, s)
                  | None \<Rightarrow>
                      (case get_dispute_of_trade s tid of
                         Some existingDispute \<Rightarrow> (Inl Conflict, s)
                       | None \<Rightarrow>
                           (let did = new_id (map d_id (disputes s));
                                s1 = s\<lparr>disputes := disputes s @
                                       [\<lparr>d_id = did, d_trade_id = tid, d_raised_by_id = uid,
                                         d_status = ''OPEN'', d_reason = reason,
                                         d_resolution_note = None, d_resolved_by_id = None,
                                         d_resolved_at = None\<rparr>]\<rparr>;
                                created = get_dispute s1 did;
                                s2 = update_trade tid (\<lambda>t. t\<lparr>t_status := ''DISPUTED''\<rparr>) s1
                            in (Inr created, s2)))))"

text \<open>
  The release branch of the resolution: \<open>parseFloat(trade.fee_rate) || 0.01\<close> is the rate
  stored on the trade, or 0.01 when that is null or zero.
\<close>

definition dispute_fee_rate :: "trade \<Rightarrow> rat" where
  "dispute_fee_rate trade =
     (case t_fee_rate trade of None \<Rightarrow> 1 / 100 | Some r \<Rightarrow> if r = 0 then 1 / 100 else r)"

definition resolve_release :: "trade \<Rightarrow> time \<Rightarrow> db \<Rightarrow> db" where
  "resolve_release trade now s =
     (let s1 = ensure_balance_row (t_buyer_id trade) s;
          feeAmount = t_amount trade * dispute_fee_rate trade;
          amountToBuyer = t_amount trade - feeAmount;
          s2 = add_balance (t_buyer_id trade) amountToBuyer s1;
          s3 = insert_transfer (t_seller_id trade) (t_buyer_id trade) amountToBuyer
                 (DisputeReleaseNote (t_id trade) (t_amount trade) feeAmount) s2
      in update_trade (t_id trade)
           (\<lambda>t. t\<lparr>t_status := ''COMPLETED'', t_released_at := Some now\<rparr>) s3)"

definition resolve_cancel :: "trade \<Rightarrow> time \<Rightarrow> db \<Rightarrow> db" where
  "resolve_cancel trade now s =
     (let s1 = (case get_offer s (t_offer_id trade) of
                  None \<Rightarrow> s
                | Some offer \<Rightarrow>
                    if o_type offer = ''SELL'' \<and> o_asset_symbol offer = ''FDA''
                    then add_balance (t_seller_id trade) (t_amount trade)
                           (ensure_balance_row (t_seller_id trade) s)
                    else s)
      in update_trade (t_id trade)
           (\<lambda>t. t\<lparr>t_status := ''CANCELLED'', t_cancelled_at := Some now\<rparr>) s1)"

text \<open>
  \<open>POST /admin/disputes/:id/resolve\<close>; \<open>isAdmin\<close> is the flag the admin middleware reads from
  the authenticated user, \<open>resolution_note || null\<close> stores no empty string.
\<close>

definition resolveDispute ::
  "db \<Rightarrow> nat \<Rightarrow> bool \<Rightarrow> nat \<Rightarrow> string \<Rightarrow> string option \<Rightarrow> string \<Rightarrow> time
     \<Rightarrow> (error + dispute option) \<times> db" where
  "resolveDispute s uid isAdmin did status resolution_note trade_action now =
     (if \<not> isAdmin then (Inl Forbidden, s)
      else if status \<noteq> ''RESOLVED'' \<and> status \<noteq> ''REJECTED'' \<and> status \<noteq> ''CLOSED''
      then (Inl ValidationError, s)
      else
        case get_dispute s did of
          None \<Rightarrow> (Inl NotFound, s)
        | Some dispute \<Rightarrow>
            if d_status dispute \<noteq> ''OPEN'' then (Inl InvalidState, s)
            else
              let note' = (case resolution_note of
                             None \<Rightarrow> None
                           | Some n \<Rightarrow> if n = [] then None else Some n);
                  s1 = update_dispute did
                         (\<lambda>d. d\<lparr>d_status := status, d_resolution_note := note',
                                 d_resolved_by_id := Some uid, d_resolved_at := Some now\<rparr>) s;
                  s2 = (if trade_action = ''release'' then
                          (case get_trade s1 (d_trade_id dispute) of
                             None \<Rightarrow> s1
                           | Some trade \<Rightarrow>
                               if t_status trade = ''DISPUTED''
                               then resolve_release trade now s1 else s1)
                        else if trade_action = ''cancel'' then
                          (case get_trade s1 (d_trade_id dispute) of
                             None \<Rightarrow> s1
                           | Some trade \<Rightarrow>
                               if t_status trade = ''DISPUTED''
                               then resolve_cancel trade now s1 else s1)
                        else s1)
              in (Inr (get_dispute s2 did), s2))"

subsection \<open>Funding from the external system\<close>

definition is_digit :: "char \<Rightarrow> bool" where
  "is_digit c = (let n = (of_char c :: nat) in 48 \<le> n \<and> n \<le> 57)"

text \<open>The number written by a string of decimal digits.\<close>

definition digits_value :: "string \<Rightarrow> nat" where
  "digits_value ds = foldl (\<lambda>n c. 10 * n + (of_char c - 48)) 0 ds"

text \<open>
  \<open>parseFloat\<close> of a string: after leading white space and a sign, the longest prefix that
  is \<open>Infinity\<close> or a decimal literal (digits with an optional fraction, or a fraction alone,
  and an exponent when it has digits); NaN when there is none.
\<close>

definition parse_mantissa :: "string \<Rightarrow> (rat \<times> string) option" where
  "parse_mantissa str =
     (let ip = takeWhile is_digit str; r1 = dropWhile is_digit str
      in case r1 of
           [] \<Rightarrow> if ip = [] then None else Some (of_nat (digits_value ip), r1)
         | c # r2 \<Rightarrow>
             if c = CHR ''.'' then
               (let fp = takeWhile is_digit r2
                in if ip = [] \<and> fp = [] then None
                   else Some (of_nat (digits_value ip)
                                + of_nat (digits_value fp) / 10 ^ length fp,
                              dropWhile is_digit r2))
             else if ip = [] then None else Some (of_nat (digits_value ip), r1))"

definition exponent_digits :: "string \<Rightarrow> int option" where
  "exponent_digits str =
     (if takeWhile is_digit str = [] then None
      else Some (int (digits_value (takeWhile is_digit str))))"

definition parse_exponent :: "string \<Rightarrow> int" where
  "parse_exponent str =
     (case str of
        [] \<Rightarrow> 0
      | c # r \<Rightarrow>
          if c = CHR ''e'' \<or> c = CHR ''E'' then
            (case r of
               [] \<Rightarrow> 0
             | sg # ds \<Rightarrow>
                 if sg = CHR ''+'' then (case exponent_digits ds of None \<Rightarrow> 0 | Some e \<Rightarrow> e)
                 else if sg = CHR ''-''
                 then (case exponent_digits ds of None \<Rightarrow> 0 | Some e \<Rightarrow> - e)
                 else (case exponent_digits r of None \<Rightarrow> 0 | Some e \<Rightarrow> e))
          else 0)"

definition parse_unsigned :: "string \<Rightarrow> jsnum" where
  "parse_unsigned str =
     (if take 8 str = ''Infinity'' then PosInf
      else case parse_mantissa str of
             None \<Rightarrow> NaN
           | Some (m, rest) \<Rightarrow> round_double (m * ipow 10 (parse_exponent rest)))"

definition parseFloat_string :: "string \<Rightarrow> jsnum" where
  "parseFloat_string str =
     (case dropWhile is_space str of
        [] \<Rightarrow> NaN
      | c # r \<Rightarrow>
          if c = CHR ''-'' then fneg (parse_unsigned r)
          else if c = CHR ''+'' then parse_unsigned r
          else parse_unsigned (c # r))"

text \<open>
  A field of a JSON body. \<open>parseFloat\<close> of a number is the number, the double nearest to the
  decimal written; of \<open>undefined\<close> and \<open>null\<close> it is NaN.
\<close>

datatype jsvalue = JUndefined | JNull | JString string | JNumber rat

definition parseFloat :: "jsvalue \<Rightarrow> jsnum" where
  "parseFloat v =
     (case v of
        JNumber r \<Rightarrow> round_double r
      | JString str \<Rightarrow> parseFloat_string str
      | JUndefined \<Rightarrow> NaN
      | JNull \<Rightarrow> NaN)"

text \<open>\<open>period.match(/^(\d+)M$/)\<close>: the digits captured, when the whole string matches.\<close>

definition match_months :: "string \<Rightarrow> string option" where
  "match_months period =
     (case rev period of
        [] \<Rightarrow> None
      | c # ds \<Rightarrow>
          if c = CHR ''M'' \<and> ds \<noteq> [] \<and> list_all is_digit ds then Some (rev ds) else None)"

text \<open>
  \<open>parseInt(digits, 10)\<close> on a string of decimal digits, as the integer written: a number
  of months beyond the exact integers of a double is beyond every date as well.
\<close>

definition parseInt :: "string \<Rightarrow> nat" where
  "parseInt ds = digits_value ds"

text \<open>
  The proleptic Gregorian calendar in UTC: the day number, counted from the epoch, of a
  date, and the year, month and day of a day number.
\<close>

definition days_from_civil :: "int \<Rightarrow> int \<Rightarrow> int \<Rightarrow> int" where
  "days_from_civil y m d =
     (let y' = (if m \<le> 2 then y - 1 else y);
          era = y' div 400;
          yoe = y' - era * 400;
          mp = (if 2 < m then m - 3 else m + 9);
          doy = (153 * mp + 2) div 5 + d - 1;
          doe = yoe * 365 + yoe div 4 - yoe div 100 + doy
      in era * 146097 + doe - 719468)"

definition civil_from_days :: "int \<Rightarrow> int \<times> int \<times> int" where
  "civil_from_days z =
     (let z' = z + 719468;
          era = z' div 146097;
          doe = z' - era * 146097;
          yoe = (doe - doe div 1460 + doe div 36524 - doe div 146096) div 365;
          doy = doe - (365 * yoe + yoe div 4 - yoe div 100);
          mp = (5 * doy + 2) div 153;
          d = doy - (153 * mp + 2) div 5 + 1;
          m = (if mp < 10 then mp + 3 else mp - 9)
      in (yoe + era * 400 + (if m \<le> 2 then 1 else 0), m, d))"

text \<open>
  \<open>expirationDate.setMonth(now.getMonth() + months)\<close>: the same day of the month and time
  of day, \<open>months\<close> months on, days beyond the end of that month running into the next;
  \<open>None\<close> is the invalid date of a time beyond 8.64e15 ms.
\<close>

definition setMonth :: "time \<Rightarrow> nat \<Rightarrow> time option" where
  "setMonth now months =
     (let ymd = civil_from_days (now div 86400000);
          mon = fst (snd ymd) - 1 + int months;
          first = days_from_civil (fst ymd + mon div 12) (mon mod 12 + 1) 1;
          t = (first + snd (snd ymd) - 1) * 86400000 + now mod 86400000
      in if \<bar>t\<bar> \<le> 8640000000000000 then Some t else None)"

text \<open>\<open>calculateExpirationDate\<close>; \<open>toISOString\<close> throws on the invalid date.\<close>

definition calculateExpirationDate :: "time \<Rightarrow> string option \<Rightarrow> error + time option" where
  "calculateExpirationDate now holdingPeriod =
     (case holdingPeriod of
        None \<Rightarrow> Inr None
      | Some hp \<Rightarrow>
          if hp = [] then Inr None
          else
            let period = trim (toUpperCase hp) in
            (case match_months period of
               None \<Rightarrow> Inl InvalidPeriod
             | Some ds \<Rightarrow>
                 let months = parseInt ds in
                 if months \<le> 0 then Inl InvalidPeriod
                 else (case setMonth now months of
                         None \<Rightarrow> Inl InvalidTimeValue
                       | Some expirationDate \<Rightarrow> Inr (Some expirationDate))))"

text \<open>
  A \<open>TIMESTAMP\<close> column reads the text of \<open>toISOString\<close> for the years 1 to 9999; beyond them
  the text has a sign and six digits of year, which the store refuses.
\<close>

definition timestamp_column :: "time \<Rightarrow> time option" where
  "timestamp_column t =
     (let y = fst (civil_from_days (t div 86400000))
      in if 1 \<le> y \<and> y \<le> 9999 then Some t else None)"

record funding_request =
  fr_userId :: string
  fr_amount :: jsvalue
  fr_holdingPeriod :: "string option"

record funding_result =
  fu_localUserId :: nat
  fu_amount :: jsnum
  fu_oldBalance :: jsnum
  fu_newBalance :: jsnum
  fu_expiresAt :: "time option"
  fu_holdingId :: "nat option"

text \<open>
  \<open>INSERT INTO fda_holdings (user_id, amount, holding_period, expires_at, created_at)\<close> with
  \<open>amount NUMERIC(30, 18)\<close>, \<open>holding_period VARCHAR(20)\<close> and \<open>expires_at TIMESTAMP\<close>; the
  period is \<open>holdingPeriod.toUpperCase()\<close>, not trimmed.
\<close>

definition insert_holding :: "nat \<Rightarrow> jsnum \<Rightarrow> string \<Rightarrow> time \<Rightarrow> time \<Rightarrow> db \<Rightarrow> db option" where
  "insert_holding u amountNum hp expiresAt now s =
     (case store_number 30 18 amountNum of
        None \<Rightarrow> None
      | Some amount \<Rightarrow>
     (case varchar 20 (toUpperCase hp) of
        None \<Rightarrow> None
      | Some period \<Rightarrow>
     (case timestamp_column expiresAt of
        None \<Rightarrow> None
      | Some expires \<Rightarrow>
          Some (s\<lparr>fda_holdings := fda_holdings s @
                    [\<lparr>h_id = new_id (map h_id (fda_holdings s)), h_user_id = u,
                      h_amount = amount, h_holding_period = period,
                      h_expires_at = expires, h_created_at = now\<rparr>]\<rparr>))))"

text \<open>
  \<open>POST /fda/transfer-to-mc-wallet\<close>, after the two middlewares that check the origin and
  the API key of the request without touching the store. The balance is written first,
  by an insert of the amount or by the credit of it, and the holding after it.
\<close>

definition transferToMcWallet ::
  "db \<Rightarrow> funding_request \<Rightarrow> time \<Rightarrow> (error + funding_result) \<times> db" where
  "transferToMcWallet s rq now =
     (if fr_userId rq = [] then (Inl ValidationError, s)
      else if fr_amount rq = JUndefined \<or> fr_amount rq = JNull \<or> fr_amount rq = JString []
      then (Inl ValidationError, s)
      else
        let amountNum = parseFloat (fr_amount rq) in
        if amountNum = NaN then (Inl ValidationError, s)
        else if fle amountNum (Fin 0) then (Inl ValidationError, s)
        else
          (case calculateExpirationDate now (fr_holdingPeriod rq) of
             Inl e \<Rightarrow> (Inl e, s)
           | Inr expiresAt \<Rightarrow>
               (case find (\<lambda>u. u_fda_user_id u = Some (fr_userId rq)
                                \<or> u_email u = Some (fr_userId rq)
                                \<or> u_phone u = Some (fr_userId rq)) (users s) of
                  None \<Rightarrow> (Inl NotFound, s)
                | Some userRow \<Rightarrow>
                    (let localUserId = u_id userRow;
                         oldBalance = round_double (fda_balance s localUserId)
                     in
                       (case numeric_param amountNum of
                          None \<Rightarrow> (Inl InternalError, s)
                        | Some d \<Rightarrow>
                       (case (case internal_balances s localUserId of
                                None \<Rightarrow> insert_balance localUserId d s
                              | Some b \<Rightarrow> credit_balance localUserId d s) of
                          None \<Rightarrow> (Inl InternalError, s)
                        | Some s1 \<Rightarrow>
                            (case (fr_holdingPeriod rq, expiresAt) of
                               (Some hp, Some e) \<Rightarrow>
                                 (case insert_holding localUserId amountNum hp e now s1 of
                                    None \<Rightarrow> (Inl InternalError, s1)
                                  | Some s2 \<Rightarrow>
                                      (Inr \<lparr>fu_localUserId = localUserId,
                                             fu_amount = amountNum,
                                             fu_oldBalance = oldBalance,
                                             fu_newBalance =
                                               round_double (fda_balance s2 localUserId),
                                             fu_expiresAt = expiresAt,
                                             fu_holdingId =
                                               Some (new_id (map h_id (fda_holdings s1)))\<rparr>,
                                       s2))
                             | _ \<Rightarrow>
                                 (Inr \<lparr>fu_localUserId = localUserId, fu_amount = amountNum,
                                        fu_oldBalance = oldBalance,
                                        fu_newBalance =
                                          round_double (fda_balance s1 localUserId),
                                        fu_expiresAt = expiresAt,
                                        fu_holdingId = None\<rparr>,
                                  s1))))))))"

subsection \<open>A sample ledger\<close>

text \<open>
  Alice is user 1, Bob user 2. Alice holds 60 and asks to sell 50 of it; the type of her
  request is in lower case, as a client may send it.
\<close>

definition alice_bob :: "user list" where
  "alice_bob =
     [\<lparr>u_id = 1, u_fda_user_id = Some ''FDA1001'', u_email = Some ''alice@example.org'',
        u_phone = None\<rparr>,
      \<lparr>u_id = 2, u_fda_user_id = Some ''FDA1002'', u_email = Some ''bob@example.org'',
        u_phone = None\<rparr>]"

definition ledger0 :: db where
  "ledger0 =
     \<lparr>users = alice_bob, internal_balances = [1 \<mapsto> 60], offers = [], trades = [],
      disputes = [], fda_holdings = [], internal_transfers = [],
      settings = [''p2p_fee_rate'' \<mapsto> 5, ''holding_fda_amount'' \<mapsto> 0]\<rparr>"


text \<open>
  Alice's open offer to sell 150, of which Bob has taken 100 in trade 1; the trade's status
  and time of payment and the table of disputes vary.
\<close>

definition sample_offer :: offer where
  "sample_offer =
     \<lparr>o_id = 1, o_maker_id = 1, o_type = ''SELL'', o_asset_symbol = ''FDA'',
      o_fiat_currency = ''INR'', o_price = 10, o_amount = 150, o_remaining = 50,
      o_min_limit = None, o_max_limit = None, o_payment_methods = None, o_status = ''OPEN'',
      o_cancelled_at = None\<rparr>"

definition sample_trade :: "string \<Rightarrow> timestamp option \<Rightarrow> trade" where
  "sample_trade st paid =
     \<lparr>t_id = 1, t_offer_id = 1, t_buyer_id = 2, t_seller_id = 1, t_amount = 100, t_price = 10,
      t_asset_symbol = ''FDA'', t_fiat_currency = ''INR'', t_status = st, t_paid_at = paid,
      t_released_at = None, t_cancelled_at = None, t_payment_screenshot = None,
      t_fee_amount = Some 0, t_fee_rate = Some 0\<rparr>"

definition sample_dispute :: dispute where
  "sample_dispute =
     \<lparr>d_id = 1, d_trade_id = 1, d_raised_by_id = 2, d_status = ''OPEN'',
      d_reason = ''no tokens received'', d_resolution_note = None, d_resolved_by_id = None,
      d_resolved_at = None\<rparr>"


text \<open>Alice's request to sell the amount \<open>a\<close>: 28, 61, 55/2 and 1.123456789 below.\<close>

definition sell :: "rat \<Rightarrow> offer_request" where
  "sell a =
     \<lparr>rq_type = ''sell'', rq_assetSymbol = ''FDA'', rq_fiatCurrency = ''INR'', rq_price = 10,
      rq_amount = a, rq_minLimit = None, rq_maxLimit = None, rq_paymentMethods = None\<rparr>"

text \<open>Trade 1 over 1.1 instead of 100, marked paid.\<close>

definition small_ledger :: db where
  "small_ledger =
     \<lparr>users = alice_bob, internal_balances = [1 \<mapsto> 10], offers = [sample_offer],
      trades = [(sample_trade ''PAID_PENDING_RELEASE'' (Some (Date 0)))\<lparr>t_amount := 11 / 10\<rparr>],
      disputes = [], fda_holdings = [], internal_transfers = [],
      settings = [''p2p_fee_rate'' \<mapsto> 5, ''holding_fda_amount'' \<mapsto> 0]\<rparr>"

definition sample_ledger :: "string \<Rightarrow> timestamp option \<Rightarrow> dispute list \<Rightarrow> db" where
  "sample_ledger st paid ds =
     \<lparr>users = alice_bob, internal_balances = [1 \<mapsto> 10], offers = [sample_offer],
      trades = [sample_trade st paid], disputes = ds, fda_holdings = [],
      internal_transfers = [],
      settings = [''p2p_fee_rate'' \<mapsto> 5, ''holding_fda_amount'' \<mapsto> 0]\<rparr>"

definition fund_6m :: funding_request where
  "fund_6m = \<lparr>fr_userId = ''FDA1002'', fr_amount = JNumber 10, fr_holdingPeriod = Some ''6m''\<rparr>"

definition fund_1y :: funding_request where
  "fund_1y = \<lparr>fr_userId = ''FDA1002'', fr_amount = JNumber 10, fr_holdingPeriod = Some ''1Y''\<rparr>"

definition fund_long :: funding_request where
  "fund_long =
     \<lparr>fr_userId = ''FDA1002'', fr_amount = JNumber 10,
      fr_holdingPeriod = Some ''0000000000000000000006M''\<rparr>"

subsection \<open>What a response has to show\<close>

text \<open>
  A dispute was opened by a request: the response carries the row of the dispute, open and
  raised by the caller on the trade, the table holds it, and the trade is now disputed.
\<close>

definition dispute_opened :: "(error + dispute option) \<times> db \<Rightarrow> nat \<Rightarrow> nat \<Rightarrow> bool" where
  "dispute_opened res uid tid =
     (case fst res of
        Inr (Some d) \<Rightarrow>
          d_trade_id d = tid \<and> d_raised_by_id d = uid \<and> d_status d = ''OPEN''
          \<and> get_dispute_of_trade (snd res) tid = Some d
          \<and> map_option t_status (get_trade (snd res) tid) = Some ''DISPUTED''
      | Inr None \<Rightarrow> False
      | Inl e \<Rightarrow> False)"

section \<open>Properties\<close>

subsection \<open>Rows and their ids\<close>

lemma fold_max_ge: "a \<le> fold max ids (a::nat)"
  by (induction ids arbitrary: a) (auto intro: order_trans[OF max.cobounded2])

lemma fold_max_mem: "x \<in> set ids \<Longrightarrow> x \<le> fold max ids (a::nat)"
proof (induction ids arbitrary: a)
  case Nil then show ?case by simp
next
  case (Cons y ys)
  show ?case
  proof (cases "x = y")
    case True
    have "y \<le> max y a" by simp
    also have "\<dots> \<le> fold max ys (max y a)" by (rule fold_max_ge)
    finally show ?thesis using True by simp
  next
    case False
    with Cons.prems have "x \<in> set ys" by simp
    then show ?thesis using Cons.IH by simp
  qed
qed

lemma new_id_fresh: "new_id ids \<notin> set ids"
proof
  assume "new_id ids \<in> set ids"
  then have "new_id ids \<le> fold max ids 0" by (rule fold_max_mem)
  then show False by (simp add: new_id_def)
qed

lemma find_new_id: "find (\<lambda>r. f r = new_id (map f xs)) xs = None"
proof -
  have "\<forall>r\<in>set xs. f r \<noteq> new_id (map f xs)"
    using new_id_fresh[of "map f xs"] by (metis image_eqI set_map)
  then show ?thesis by (simp add: find_None_iff)
qed

lemma find_app:
  "find P (xs @ ys) = (case find P xs of None \<Rightarrow> find P ys | Some x \<Rightarrow> Some x)"
  by (induction xs) auto

lemma find_append_new:
  "f x = new_id (map f xs) \<Longrightarrow> find (\<lambda>r. f r = new_id (map f xs)) (xs @ [x]) = Some x"
  by (simp add: find_app find_new_id)

lemma find_map_update:
  assumes "\<And>r. key (f r) = key r"
  shows "find (\<lambda>r. key r = i) (map (\<lambda>r. if key r = i then f r else r) xs)
         = map_option f (find (\<lambda>r. key r = i) xs)"
  by (induction xs) (auto simp: assms)

lemma get_trade_update:
  assumes "\<And>t. t_id (f t) = t_id t"
  shows "get_trade (update_trade i f s) i = map_option f (get_trade s i)"
  using find_map_update[of t_id f i "trades s"] assms
  by (simp add: get_trade_def update_trade_def)



lemma trades_update_offer [simp]: "trades (update_offer i f s) = trades s"
  by (simp add: update_offer_def)

lemma get_trade_update_offer [simp]: "get_trade (update_offer i f s) j = get_trade s j"
  by (simp add: get_trade_def)

lemma balances_update_offer [simp]: "internal_balances (update_offer i f s) = internal_balances s"
  by (simp add: update_offer_def)

lemma balances_update_trade [simp]: "internal_balances (update_trade i f s) = internal_balances s"
  by (simp add: update_trade_def)

lemma offers_update_trade [simp]: "offers (update_trade i f s) = offers s"
  by (simp add: update_trade_def)

lemma transfers_update_trade [simp]:
  "internal_transfers (update_trade i f s) = internal_transfers s"
  by (simp add: update_trade_def)

lemma balances_insert_transfer [simp]:
  "internal_balances (insert_transfer a b x n s) = internal_balances s"
  by (simp add: insert_transfer_def)

lemma trades_insert_transfer [simp]: "trades (insert_transfer a b x n s) = trades s"
  by (simp add: insert_transfer_def)

lemma get_offer_update_trade [simp]: "get_offer (update_trade i f s) j = get_offer s j"
  by (simp add: get_offer_def)

subsection \<open>Balance rows\<close>

lemma fda_balance_ensure [simp]: "fda_balance (ensure_balance_row u s) v = fda_balance s v"
  by (auto simp: fda_balance_def ensure_balance_row_def split: option.splits)

lemma offers_ensure [simp]: "offers (ensure_balance_row u s) = offers s"
  by (auto simp: ensure_balance_row_def split: option.splits)

lemma holdings_ensure [simp]: "fda_holdings (ensure_balance_row u s) = fda_holdings s"
  by (auto simp: ensure_balance_row_def split: option.splits)

lemma settings_ensure [simp]: "settings (ensure_balance_row u s) = settings s"
  by (auto simp: ensure_balance_row_def split: option.splits)

lemma trades_ensure [simp]: "trades (ensure_balance_row u s) = trades s"
  by (auto simp: ensure_balance_row_def split: option.splits)

lemma transfers_ensure [simp]:
  "internal_transfers (ensure_balance_row u s) = internal_transfers s"
  by (auto simp: ensure_balance_row_def split: option.splits)

lemma usable_ensure [simp]: "usableBalance (ensure_balance_row u s) v now = usableBalance s v now"
  by (simp add: usableBalance_def available_def locked_def holdingAmount_def holdingLocked_def)

lemma offers_add_balance [simp]: "offers (add_balance u x s) = offers s"
  by (auto simp: add_balance_def split: option.splits)

lemma trades_add_balance [simp]: "trades (add_balance u x s) = trades s"
  by (auto simp: add_balance_def split: option.splits)

lemma transfers_add_balance [simp]:
  "internal_transfers (add_balance u x s) = internal_transfers s"
  by (auto simp: add_balance_def split: option.splits)


lemma credit_ensure:
  "credit_balance u d (ensure_balance_row u s)
     = map_option (\<lambda>b. s\<lparr>internal_balances := (internal_balances s)(u \<mapsto> b)\<rparr>)
         (numeric_column 30 18 (fda_balance s u + d))"
  by (auto simp: credit_balance_def ensure_balance_row_def fda_balance_def
           split: option.splits)

subsection \<open>Evaluating numbers\<close>

declare scale_up.simps [simp del] scale_down.simps [simp del] shortest.simps [simp del]
  fadd.simps [simp del] fmul.simps [simp del] fdiv.simps [simp del]

lemma floor_rat_numeral [simp]: "\<lfloor>numeral a / numeral b :: rat\<rfloor> = numeral a div numeral b"
  using floor_divide_of_int_eq[of "numeral a" "numeral b", where ?'a = rat] by simp

lemmas double_eval = round_double_def round_magnitude_def ilog_def scale_up.simps
  scale_down.simps ipow_def round_half_even_def Let_def fadd.simps fmul.simps fdiv.simps

lemmas decimal_eval = toDecimal_def shortest.simps candidate_def

lemmas column_eval = round_scale_def numeric_column_def numeric_param_def store_number_def
  varchar_def store_limit_def

lemma double_0: "round_double 0 = Fin 0"
  by (simp add: round_double_def)

lemma double_5: "round_double 5 = Fin 5"
  by (simp add: double_eval)

lemma double_10: "round_double 10 = Fin 10"
  by (simp add: double_eval)



lemma double_60: "round_double 60 = Fin 60"
  by (simp add: double_eval)


lemma double_100: "round_double 100 = Fin 100"
  by (simp add: double_eval)






lemma double_sub_60_0: "fsub (Fin 60) (Fin 0) = Fin 60"
  by (simp add: fsub_def double_eval)

lemma double_9dec:
  "round_double (1123456789 / 1000000000) = Fin (2529799788153627 / 2251799813685248)"
  by (simp add: double_eval)

lemma decimal_10: "toDecimal 10 = 10"
  by (simp add: decimal_eval double_eval)


lemma decimal_9dec:
  "toDecimal (2529799788153627 / 2251799813685248) = 1123456789 / 1000000000"
  by (simp add: decimal_eval double_eval)

subsection \<open>Offer book\<close>


lemma sell_type: "trim (toUpperCase ''sell'') = ''SELL''"
  by code_simp



lemma create_9dec:
  "createOffer ledger0 1 (sell (1123456789 / 1000000000)) 0
   = (Inr \<lparr>o_id = 1, o_maker_id = 1, o_type = ''SELL'', o_asset_symbol = ''FDA'',
            o_fiat_currency = ''INR'', o_price = 10, o_amount = 112345679 / 100000000,
            o_remaining = 112345679 / 100000000, o_min_limit = None, o_max_limit = None,
            o_payment_methods = None, o_status = ''OPEN'', o_cancelled_at = None\<rparr>,
      ledger0\<lparr>internal_balances := [1 \<mapsto> 58876543211 / 1000000000],
        offers := [\<lparr>o_id = 1, o_maker_id = 1, o_type = ''SELL'', o_asset_symbol = ''FDA'',
            o_fiat_currency = ''INR'', o_price = 10, o_amount = 112345679 / 100000000,
            o_remaining = 112345679 / 100000000, o_min_limit = None, o_max_limit = None,
            o_payment_methods = None, o_status = ''OPEN'', o_cancelled_at = None\<rparr>]\<rparr>)"
  by (simp add: createOffer_def insert_offer_def sell_def ledger0_def ensure_balance_row_def
        fda_balance_def locked_def holdingLocked_def holdingAmount_def falsy_def
        credit_balance_def new_id_def sell_type double_0 double_10 double_60 double_9dec
        double_sub_60_0 decimal_10 decimal_9dec column_eval Let_def)

lemma cancel_9dec:
  "cancelOffer
     (ledger0\<lparr>internal_balances := [1 \<mapsto> 58876543211 / 1000000000],
        offers := [\<lparr>o_id = 1, o_maker_id = 1, o_type = ''SELL'', o_asset_symbol = ''FDA'',
            o_fiat_currency = ''INR'', o_price = 10, o_amount = 112345679 / 100000000,
            o_remaining = 112345679 / 100000000, o_min_limit = None, o_max_limit = None,
            o_payment_methods = None, o_status = ''OPEN'', o_cancelled_at = None\<rparr>]\<rparr>) 1 1 5
   = (Inr (Some \<lparr>o_id = 1, o_maker_id = 1, o_type = ''SELL'', o_asset_symbol = ''FDA'',
            o_fiat_currency = ''INR'', o_price = 10, o_amount = 112345679 / 100000000,
            o_remaining = 112345679 / 100000000, o_min_limit = None, o_max_limit = None,
            o_payment_methods = None, o_status = ''CANCELLED'', o_cancelled_at = Some 5\<rparr>),
      ledger0\<lparr>internal_balances := [1 \<mapsto> 60000000001 / 1000000000],
        offers := [\<lparr>o_id = 1, o_maker_id = 1, o_type = ''SELL'', o_asset_symbol = ''FDA'',
            o_fiat_currency = ''INR'', o_price = 10, o_amount = 112345679 / 100000000,
            o_remaining = 112345679 / 100000000, o_min_limit = None, o_max_limit = None,
            o_payment_methods = None, o_status = ''CANCELLED'',
            o_cancelled_at = Some 5\<rparr>]\<rparr>)"
  by (simp add: cancelOffer_def get_offer_def update_offer_def credit_balance_def
        ledger0_def column_eval Let_def)









text \<open>
  C7. Creating an offer to sell the ledger asset and cancelling it straight away is claimed
  to leave the maker's balance where it was; the handlers say so themselves (\<open>Lock the
  balance by deducting it immediately (it will be returned if offer is cancelled)\<close>,
  \<open>Return the remaining amount back to the user's balance\<close>). The debit is the amount of the
  request, on a column of 18 decimals; the credit is \<open>remaining\<close> as the offer kept it, on a
  column of 8. Alice holds 60 and offers 1.123456789: her balance is 58.876543211, the offer
  remains at 1.12345679, and after she has cancelled it her balance is 60.000000001.
\<close>

theorem create_then_cancel_balance:
  "fda_balance ledger0 1 = 60
   \<and> map_sum id o_remaining (fst (createOffer ledger0 1 (sell (1123456789 / 1000000000)) 0))
     = Inr (112345679 / 100000000)
   \<and> fda_balance (snd (createOffer ledger0 1 (sell (1123456789 / 1000000000)) 0)) 1
     = 58876543211 / 1000000000
   \<and> map_sum id (map_option o_status)
       (fst (cancelOffer (snd (createOffer ledger0 1 (sell (1123456789 / 1000000000)) 0))
               1 1 5))
     = Inr (Some ''CANCELLED'')
   \<and> fda_balance
       (snd (cancelOffer (snd (createOffer ledger0 1 (sell (1123456789 / 1000000000)) 0))
               1 1 5)) 1
     = 60000000001 / 1000000000"
  unfolding create_9dec snd_conv fst_conv cancel_9dec
  by (simp add: fda_balance_def ledger0_def)

subsection \<open>Trade engine\<close>

lemma insert_trade_parties:
  assumes "insert_trade offer buyerId sellerId amountNum s = (Inr created, s')"
  shows "t_offer_id created = o_id offer \<and> t_buyer_id created = buyerId
       \<and> t_seller_id created = sellerId"
proof -
  have "fst (insert_trade offer buyerId sellerId amountNum s) = Inr created"
    using assms by simp
  then show ?thesis
    unfolding insert_trade_def Let_def fst_conv by auto
qed

text \<open>
  C9, as claimed: a trade never has the same user as buyer and seller. The handler does not
  compare the acceptor with the maker of the offer: when Alice accepts 20 of her own offer,
  trade 2 is created with Alice on both sides.
\<close>

theorem acceptOffer_own_offer_counterexample:
  "o_maker_id sample_offer = 1
   \<and> fst (acceptOffer (sample_ledger ''PENDING'' None []) 1 1 20 0)
     = Inr \<lparr>t_id = 2, t_offer_id = 1, t_buyer_id = 1, t_seller_id = 1, t_amount = 20,
             t_price = 10, t_asset_symbol = ''FDA'', t_fiat_currency = ''INR'',
             t_status = ''PENDING'', t_paid_at = None, t_released_at = None,
             t_cancelled_at = None, t_payment_screenshot = None, t_fee_amount = Some 0,
             t_fee_rate = Some 0\<rparr>"
  by code_simp

text \<open>
  C9, amended: the buyer and the seller of a trade created by \<open>acceptOffer\<close> are the acceptor
  and the maker of the offer (the acceptor buys from a SELL offer and sells into any other),
  so they differ exactly when the acceptor is not the maker.
\<close>

theorem acceptOffer_parties:
  assumes "acceptOffer s uid offerId amountNum now = (Inr created, s')"
  shows "\<exists>offer. get_offer s offerId = Some offer \<and> t_offer_id created = o_id offer
           \<and> t_buyer_id created = (if o_type offer = ''SELL'' then uid else o_maker_id offer)
           \<and> t_seller_id created = (if o_type offer = ''SELL'' then o_maker_id offer else uid)
           \<and> (t_buyer_id created = t_seller_id created \<longleftrightarrow> uid = o_maker_id offer)"
proof (cases "get_offer s offerId")
  case None
  then have "\<exists>e. fst (acceptOffer s uid offerId amountNum now) = Inl e"
    by (simp add: acceptOffer_def)
  then show ?thesis using assms by simp
next
  case (Some offer)
  let ?b = "if o_type offer = ''SELL'' then uid else o_maker_id offer"
  let ?sl = "if o_type offer = ''SELL'' then o_maker_id offer else uid"
  have "\<exists>st. insert_trade offer ?b ?sl amountNum st = (Inr created, s')"
  proof (rule ccontr)
    assume no: "\<not> (\<exists>st. insert_trade offer ?b ?sl amountNum st = (Inr created, s'))"
    have "\<exists>e. fst (acceptOffer s uid offerId amountNum now) = Inl e
          \<or> (\<exists>st. acceptOffer s uid offerId amountNum now = insert_trade offer ?b ?sl amountNum st)"
      unfolding acceptOffer_def Let_def using Some by (simp split: if_splits) blast
    then show False using assms no by auto
  qed
  then obtain st where "insert_trade offer ?b ?sl amountNum st = (Inr created, s')" by blast
  from insert_trade_parties[OF this] show ?thesis using Some by auto
qed

theorem acceptOffer_parties_witness:
  "map_sum id t_buyer_id (fst (acceptOffer (sample_ledger ''PENDING'' None []) 2 1 20 0)) = Inr 2
   \<and> map_sum id t_seller_id (fst (acceptOffer (sample_ledger ''PENDING'' None []) 2 1 20 0))
       = Inr 1"
proof -
  let ?s = "sample_ledger ''PENDING'' None []"
  let ?t = "\<lparr>t_id = 2, t_offer_id = 1, t_buyer_id = 2, t_seller_id = 1, t_amount = 20,
             t_price = 10, t_asset_symbol = ''FDA'', t_fiat_currency = ''INR'',
             t_status = ''PENDING'', t_paid_at = None, t_released_at = None,
             t_cancelled_at = None, t_payment_screenshot = None, t_fee_amount = Some 0,
             t_fee_rate = Some 0\<rparr>"
  have f: "fst (acceptOffer ?s 2 1 20 0) = Inr ?t" by code_simp
  then have h: "acceptOffer ?s 2 1 20 0 = (Inr ?t, snd (acceptOffer ?s 2 1 20 0))"
    by (simp add: prod_eq_iff)
  have g: "get_offer ?s 1 = Some sample_offer" by code_simp
  have y: "o_type sample_offer = ''SELL''" by code_simp
  have m: "o_maker_id sample_offer = 1" by code_simp
  from acceptOffer_parties[OF h]
  have "t_buyer_id ?t = 2 \<and> t_seller_id ?t = 1"
    unfolding g using y m by simp
  then show ?thesis unfolding f by simp
qed

lemma markPaid_buyer:
  assumes "get_trade s tid = Some trade" and "t_buyer_id trade = uid"
  shows "\<exists>p. markPaid s uid tid shot now = (Inr p, snd (markPaid s uid tid shot now))
           \<and> get_trade (snd (markPaid s uid tid shot now)) tid = Some p
           \<and> t_buyer_id p = uid
           \<and> t_status p = ''PAID_PENDING_RELEASE'' \<and> t_paid_at p = Some (Date now)"
proof -
  let ?shot = "case shot of None \<Rightarrow> None | Some p \<Rightarrow> if p = [] then None else Some p"
  let ?f = "\<lambda>t. t\<lparr>t_status := ''PAID_PENDING_RELEASE'', t_paid_at := Some (Date now),
                  t_payment_screenshot := ?shot\<rparr>"
  have g: "get_trade (update_trade tid ?f s) tid = Some (?f trade)"
    using get_trade_update[of ?f tid s] assms(1) by simp
  have "markPaid s uid tid shot now = (Inr (?f trade), update_trade tid ?f s)"
    using assms g by (simp add: markPaid_def Let_def)
  then show ?thesis using g assms(2) by simp
qed

lemma double_div_5_100:
  "fdiv (Fin 5) (Fin 100) = Fin (3602879701896397 / 72057594037927936)"
  by (simp add: double_eval)

lemma double_mul_100:
  "fmul (Fin 100) (Fin (3602879701896397 / 72057594037927936)) = Fin 5"
  by (simp add: double_eval)

lemma double_sub_100_5: "fsub (Fin 100) (Fin 5) = Fin 95"
  by (simp add: fsub_def double_eval)

lemma double_11_10: "round_double (11 / 10) = Fin (2476979795053773 / 2251799813685248)"
  by (simp add: double_eval)

lemma double_mul_11_10:
  "fmul (Fin (2476979795053773 / 2251799813685248))
        (Fin (3602879701896397 / 72057594037927936))
   = Fin (3963167672086037 / 72057594037927936)"
  by (simp add: double_eval)

lemma double_sub_11_10:
  "fsub (Fin (2476979795053773 / 2251799813685248))
        (Fin (3963167672086037 / 72057594037927936))
   = Fin (4706261610602169 / 4503599627370496)"
  by (simp add: fsub_def double_eval)

lemma decimal_5: "toDecimal 5 = 5"
  by (simp add: decimal_eval double_eval)

lemma decimal_95: "toDecimal 95 = 95"
  by (simp add: decimal_eval double_eval)

lemma decimal_rate: "toDecimal (3602879701896397 / 72057594037927936) = 1 / 20"
  by (simp add: decimal_eval double_eval)

lemma decimal_fee_11_10:
  "toDecimal (3963167672086037 / 72057594037927936) = 5500000000000001 / 100000000000000000"
  by (simp add: decimal_eval double_eval)

lemma decimal_payout_11_10:
  "toDecimal (4706261610602169 / 4503599627370496) = 5225000000000001 / 5000000000000000"
  by (simp add: decimal_eval double_eval)

lemmas release_eval = release_def get_trade_def feeRatePercent_def ensure_balance_row_def
  credit_balance_def insert_transfer_def update_trade_def new_id_def fda_balance_def
  sample_trade_def column_eval Let_def double_5 double_100 double_div_5_100 double_mul_100
  double_sub_100_5 double_11_10 double_mul_11_10 double_sub_11_10 decimal_5 decimal_95
  decimal_rate decimal_fee_11_10 decimal_payout_11_10

lemma release_sample:
  "release (sample_ledger ''PAID_PENDING_RELEASE'' (Some (Date 0)) []) 1 1 50
   = (Inr (Some ((sample_trade ''COMPLETED'' (Some (Date 0)))
                   \<lparr>t_released_at := Some 50, t_fee_amount := Some 5,
                     t_fee_rate := Some (1 / 20)\<rparr>)),
      (sample_ledger ''PAID_PENDING_RELEASE'' (Some (Date 0)) [])
        \<lparr>internal_balances := [1 \<mapsto> 10, 2 \<mapsto> 95],
          trades := [(sample_trade ''COMPLETED'' (Some (Date 0)))
                       \<lparr>t_released_at := Some 50, t_fee_amount := Some 5,
                         t_fee_rate := Some (1 / 20)\<rparr>],
          internal_transfers :=
            [\<lparr>x_id = 1, x_from_user_id = 1, x_to_user_id = 2, x_amount = 95,
              x_note = TradeNote 1 100 (Fin 5)\<rparr>]\<rparr>)"
  by (simp add: release_eval sample_ledger_def)

lemma release_small:
  "release small_ledger 1 1 50
   = (Inr (Some ((sample_trade ''COMPLETED'' (Some (Date 0)))
                   \<lparr>t_amount := 11 / 10, t_released_at := Some 50,
                     t_fee_amount := Some (11 / 200), t_fee_rate := Some (1 / 20)\<rparr>)),
      small_ledger
        \<lparr>internal_balances := [1 \<mapsto> 10, 2 \<mapsto> 5225000000000001 / 5000000000000000],
          trades := [(sample_trade ''COMPLETED'' (Some (Date 0)))
                       \<lparr>t_amount := 11 / 10, t_released_at := Some 50,
                         t_fee_amount := Some (11 / 200), t_fee_rate := Some (1 / 20)\<rparr>],
          internal_transfers :=
            [\<lparr>x_id = 1, x_from_user_id = 1, x_to_user_id = 2,
              x_amount = 5225000000000001 / 5000000000000000,
              x_note = TradeNote 1 (11 / 10)
                         (Fin (3963167672086037 / 72057594037927936))\<rparr>]\<rparr>)"
  by (simp add: release_eval small_ledger_def)

text \<open>
  C3, as claimed: marking paid is allowed only while the trade is \<open>PENDING\<close> or
  \<open>PAID_PENDING_RELEASE\<close>. The handler reads no status: after Alice has released trade 1, which
  is then \<open>COMPLETED\<close>, Bob marks it paid again and it is back in \<open>PAID_PENDING_RELEASE\<close>.
\<close>

theorem markPaid_completed_counterexample:
  "map_sum id (map_option t_status)
     (fst (release (sample_ledger ''PAID_PENDING_RELEASE'' (Some (Date 0)) []) 1 1 50))
     = Inr (Some ''COMPLETED'')
   \<and> map_sum id t_status
       (fst (markPaid
              (snd (release (sample_ledger ''PAID_PENDING_RELEASE'' (Some (Date 0)) []) 1 1 50))
              2 1 None 100))
     = Inr ''PAID_PENDING_RELEASE''"
proof -
  have "map_sum id t_status
       (fst (markPaid
              ((sample_ledger ''PAID_PENDING_RELEASE'' (Some (Date 0)) [])
                 \<lparr>internal_balances := [1 \<mapsto> 10, 2 \<mapsto> 95],
                   trades := [(sample_trade ''COMPLETED'' (Some (Date 0)))
                       \<lparr>t_released_at := Some 50, t_fee_amount := Some 5,
                         t_fee_rate := Some (1 / 20)\<rparr>],
                   internal_transfers :=
                     [\<lparr>x_id = 1, x_from_user_id = 1, x_to_user_id = 2, x_amount = 95,
                       x_note = TradeNote 1 100 (Fin 5)\<rparr>]\<rparr>)
              2 1 None 100))
     = Inr ''PAID_PENDING_RELEASE''"
    by (simp add: markPaid_def get_trade_def update_trade_def sample_trade_def Let_def)
  then show ?thesis
    unfolding release_sample snd_conv fst_conv by (simp add: sample_trade_def)
qed

text \<open>
  C3, amended: on an existing trade \<open>markPaid\<close> fails with \<open>Forbidden\<close>, changing nothing,
  unless the caller is the buyer; for the buyer it succeeds whatever the status of the trade,
  sets the status to \<open>PAID_PENDING_RELEASE\<close> and \<open>paid_at\<close> to the time of the call, and a
  second call leaves the status there with \<open>paid_at\<close> at the time of the second call.
\<close>

theorem markPaid_buyer_any_status:
  assumes "get_trade s tid = Some trade"
  shows "(t_buyer_id trade \<noteq> uid \<longrightarrow> markPaid s uid tid shot now = (Inl Forbidden, s))
       \<and> (t_buyer_id trade = uid \<longrightarrow>
            (\<exists>p. fst (markPaid s uid tid shot now) = Inr p
               \<and> get_trade (snd (markPaid s uid tid shot now)) tid = Some p
               \<and> t_status p = ''PAID_PENDING_RELEASE'' \<and> t_paid_at p = Some (Date now))
          \<and> (\<exists>q. fst (markPaid (snd (markPaid s uid tid shot now)) uid tid shot' later) = Inr q
               \<and> t_status q = ''PAID_PENDING_RELEASE'' \<and> t_paid_at q = Some (Date later)))"
proof (intro conjI impI)
  assume "t_buyer_id trade \<noteq> uid"
  then show "markPaid s uid tid shot now = (Inl Forbidden, s)"
    using assms by (simp add: markPaid_def)
next
  assume b: "t_buyer_id trade = uid"
  from markPaid_buyer[OF assms b, of shot now]
  obtain p where p: "markPaid s uid tid shot now = (Inr p, snd (markPaid s uid tid shot now))"
    "get_trade (snd (markPaid s uid tid shot now)) tid = Some p" "t_buyer_id p = uid"
    "t_status p = ''PAID_PENDING_RELEASE''" "t_paid_at p = Some (Date now)"
    by blast
  show "\<exists>p. fst (markPaid s uid tid shot now) = Inr p
               \<and> get_trade (snd (markPaid s uid tid shot now)) tid = Some p
               \<and> t_status p = ''PAID_PENDING_RELEASE'' \<and> t_paid_at p = Some (Date now)"
    using p by (metis fst_conv)
  from markPaid_buyer[OF p(2) p(3), of shot' later]
  show "\<exists>q. fst (markPaid (snd (markPaid s uid tid shot now)) uid tid shot' later) = Inr q
               \<and> t_status q = ''PAID_PENDING_RELEASE'' \<and> t_paid_at q = Some (Date later)"
    by (metis fst_conv)
qed

theorem markPaid_buyer_any_status_witness:
  "markPaid (sample_ledger ''PENDING'' None []) 1 1 None 100
     = (Inl Forbidden, sample_ledger ''PENDING'' None [])
   \<and> (\<exists>q. fst (markPaid (snd (markPaid (sample_ledger ''PENDING'' None []) 2 1 None 100))
                   2 1 None 200) = Inr q
          \<and> t_status q = ''PAID_PENDING_RELEASE'' \<and> t_paid_at q = Some (Date 200))"
proof -
  let ?s = "sample_ledger ''PENDING'' None []"
  have g: "get_trade ?s 1 = Some (sample_trade ''PENDING'' None)" by code_simp
  have b: "t_buyer_id (sample_trade ''PENDING'' None) = 2" by code_simp
  from markPaid_buyer_any_status[OF g, of 1 None 100] b
  have 1: "markPaid ?s 1 1 None 100 = (Inl Forbidden, ?s)" by simp
  from markPaid_buyer_any_status[OF g, of 2 None 100 None 200] b
  have 2: "\<exists>q. fst (markPaid (snd (markPaid ?s 2 1 None 100)) 2 1 None 200) = Inr q
          \<and> t_status q = ''PAID_PENDING_RELEASE'' \<and> t_paid_at q = Some (Date 200)"
    by simp
  from 1 2 show ?thesis by blast
qed

text \<open>
  C4, as claimed: the buyer is credited exactly \<open>amount - amount * (p2p_fee_rate / 100)\<close>.
  The fee and the payout are computed in doubles: trade 1 over 1.1 at a rate of 5, for
  which the claim gives 1.1 - 0.055 = 1.045, credits Bob 1.0450000000000002.
\<close>

theorem release_payout_counterexample:
  "map_option t_amount (get_trade small_ledger 1) = Some (11 / 10)
   \<and> settings small_ledger ''p2p_fee_rate'' = Some 5
   \<and> (11 / 10 - 11 / 10 * (5 / 100) :: rat) = 10450 / 10000
   \<and> fda_balance small_ledger 2 = 0
   \<and> fda_balance (snd (release small_ledger 1 1 50)) 2
     = 10450000000000002 / 10000000000000000
   \<and> map_option t_status (get_trade (snd (release small_ledger 1 1 50)) 1)
     = Some ''COMPLETED''"
  unfolding release_small snd_conv
  by (simp add: small_ledger_def get_trade_def fda_balance_def sample_trade_def)

text \<open>
  C4, amended: releasing a trade from \<open>PAID_PENDING_RELEASE\<close> computes, in the arithmetic of
  doubles, \<open>rate = p2p_fee_rate / 100\<close>, \<open>fee = amount * rate\<close> and \<open>payout = amount - fee\<close>.
  When the store accepts the statements, the buyer's balance becomes the old balance plus
  the decimal of \<open>payout\<close>, rounded to 18 decimals, and no other balance changes; the
  transfer from seller to buyer carries the decimal of \<open>payout\<close>; and the completed trade
  records the decimal of \<open>fee\<close> rounded to 8 decimals and that of \<open>rate\<close> rounded to 6. An
  amount of 100 at a rate of 5 pays out 95 with a fee of 5.
\<close>

theorem release_fee_payout:
  assumes "get_trade s tid = Some trade" and "t_status trade = ''PAID_PENDING_RELEASE''"
    and "t_seller_id trade = uid"
    and "fdiv (case settings s ''p2p_fee_rate'' of None \<Rightarrow> Fin 0 | Some v \<Rightarrow> round_double v)
           (Fin 100) = Fin rate"
    and "fmul (round_double (t_amount trade)) (Fin rate) = Fin fee"
    and "fsub (round_double (t_amount trade)) (Fin fee) = Fin payout"
    and "credited = round_scale 18 (fda_balance s (t_buyer_id trade) + toDecimal payout)"
    and "\<bar>credited\<bar> < 10 ^ 12"
    and "transferred = round_scale 18 (toDecimal payout)" and "\<bar>transferred\<bar> < 10 ^ 12"
    and "fee_amount = round_scale 8 (toDecimal fee)" and "\<bar>fee_amount\<bar> < 10 ^ 12"
    and "fee_rate = round_scale 6 (toDecimal rate)" and "\<bar>fee_rate\<bar> < 10 ^ 4"
  shows "let s' = snd (release s uid tid now);
             released = trade\<lparr>t_status := ''COMPLETED'', t_released_at := Some now,
                               t_fee_amount := Some fee_amount,
                               t_fee_rate := Some fee_rate\<rparr>
         in fst (release s uid tid now) = Inr (Some released)
          \<and> get_trade s' tid = Some released
          \<and> (\<forall>u. fda_balance s' u
                 = (if u = t_buyer_id trade then credited else fda_balance s u))
          \<and> internal_transfers s' = internal_transfers s @
               [\<lparr>x_id = new_id (map x_id (internal_transfers s)),
                 x_from_user_id = t_seller_id trade, x_to_user_id = t_buyer_id trade,
                 x_amount = transferred,
                 x_note = TradeNote tid (t_amount trade) (Fin fee)\<rparr>]
          \<and> (t_amount trade = 100 \<and> settings s ''p2p_fee_rate'' = Some 5
               \<longrightarrow> toDecimal payout = 95 \<and> fee_amount = 5
                 \<and> credited = round_scale 18 (fda_balance s (t_buyer_id trade) + 95))"
proof -
  let ?b = "t_buyer_id trade"
  let ?f = "\<lambda>t. t\<lparr>t_status := ''COMPLETED'', t_released_at := Some now,
                  t_fee_amount := Some fee_amount, t_fee_rate := Some fee_rate\<rparr>"
  let ?s2 = "s\<lparr>internal_balances := (internal_balances s)(?b \<mapsto> credited)\<rparr>"
  let ?s3 = "insert_transfer (t_seller_id trade) ?b transferred
               (TradeNote tid (t_amount trade) (Fin fee)) ?s2"
  let ?s4 = "update_trade tid ?f ?s3"
  have rate: "fdiv (feeRatePercent s) (Fin 100) = Fin rate"
    using assms(4) by (simp add: feeRatePercent_def)
  have credit: "credit_balance ?b (toDecimal payout) (ensure_balance_row ?b s) = Some ?s2"
    using assms(7,8) by (simp add: credit_ensure numeric_column_def)
  have transfer: "numeric_column 30 18 (toDecimal payout) = Some transferred"
    using assms(9,10) by (simp add: numeric_column_def)
  have fee: "store_number 20 8 (Fin fee) = Some fee_amount"
    using assms(11,12) by (simp add: store_number_def numeric_param_def numeric_column_def)
  have rt: "store_number 10 6 (Fin rate) = Some fee_rate"
    using assms(13,14) by (simp add: store_number_def numeric_param_def numeric_column_def)
  have run: "release s uid tid now = (Inr (get_trade ?s4 tid), ?s4)"
    using assms(1,2,3)
    by (simp add: release_def Let_def rate assms(5,6) numeric_param_def credit transfer
          fee rt)
  have "get_trade ?s3 tid = Some trade"
    using assms(1) by (simp add: get_trade_def)
  then have t4: "get_trade ?s4 tid = Some (?f trade)"
    using get_trade_update[of ?f tid ?s3] by simp
  have b4: "\<And>u. fda_balance ?s4 u = (if u = ?b then credited else fda_balance s u)"
    by (simp add: fda_balance_def)
  have x4: "internal_transfers ?s4 = internal_transfers s @
               [\<lparr>x_id = new_id (map x_id (internal_transfers s)),
                 x_from_user_id = t_seller_id trade, x_to_user_id = t_buyer_id trade,
                 x_amount = transferred,
                 x_note = TradeNote tid (t_amount trade) (Fin fee)\<rparr>]"
    by (simp add: insert_transfer_def)
  have ex: "t_amount trade = 100 \<and> settings s ''p2p_fee_rate'' = Some 5
              \<longrightarrow> toDecimal payout = 95 \<and> fee_amount = 5
                \<and> credited = round_scale 18 (fda_balance s ?b + 95)"
  proof
    assume a: "t_amount trade = 100 \<and> settings s ''p2p_fee_rate'' = Some 5"
    have r: "rate = 3602879701896397 / 72057594037927936"
      using assms(4) a by (simp add: double_5 double_div_5_100)
    have f: "fee = 5"
      using assms(5) a by (simp add: r double_100 double_mul_100)
    have p: "payout = 95"
      using assms(6) a by (simp add: f double_100 double_sub_100_5)
    show "toDecimal payout = 95 \<and> fee_amount = 5
            \<and> credited = round_scale 18 (fda_balance s ?b + 95)"
      using assms(7,11) by (simp add: p f decimal_95 decimal_5 round_scale_def)
  qed
  show ?thesis
    unfolding Let_def run fst_conv snd_conv using t4 b4 x4 ex by blast
qed

theorem release_fee_payout_witness:
  "fda_balance
     (snd (release (sample_ledger ''PAID_PENDING_RELEASE'' (Some (Date 0)) []) 1 1 50)) 2 = 95
   \<and> fda_balance
     (snd (release (sample_ledger ''PAID_PENDING_RELEASE'' (Some (Date 0)) []) 1 1 50)) 1 = 10
   \<and> map_sum id (map_option t_fee_amount)
       (fst (release (sample_ledger ''PAID_PENDING_RELEASE'' (Some (Date 0)) []) 1 1 50))
     = Inr (Some (Some 5))
   \<and> fda_balance (snd (release small_ledger 1 1 50)) 2
     = 10450000000000002 / 10000000000000000
   \<and> map_sum id (map_option t_fee_amount) (fst (release small_ledger 1 1 50))
     = Inr (Some (Some (55 / 1000)))
   \<and> map_sum id (map_option t_fee_rate) (fst (release small_ledger 1 1 50))
     = Inr (Some (Some (5 / 100)))"
proof -
  let ?s = "sample_ledger ''PAID_PENDING_RELEASE'' (Some (Date 0)) []"
  let ?t = "sample_trade ''PAID_PENDING_RELEASE'' (Some (Date 0))"
  let ?u = "?t\<lparr>t_amount := 11 / 10\<rparr>"
  have g: "get_trade ?s 1 = Some ?t" by code_simp
  have st: "t_status ?t = ''PAID_PENDING_RELEASE''" by code_simp
  have sl: "t_seller_id ?t = 1" by code_simp
  have rate: "fdiv (case settings ?s ''p2p_fee_rate'' of None \<Rightarrow> Fin 0
                    | Some v \<Rightarrow> round_double v) (Fin 100)
              = Fin (3602879701896397 / 72057594037927936)"
    by (simp add: sample_ledger_def double_5 double_div_5_100)
  have fee: "fmul (round_double (t_amount ?t)) (Fin (3602879701896397 / 72057594037927936))
              = Fin 5"
    by (simp add: sample_trade_def double_100 double_mul_100)
  have payout: "fsub (round_double (t_amount ?t)) (Fin 5) = Fin 95"
    by (simp add: sample_trade_def double_100 double_sub_100_5)
  have c: "95 = round_scale 18 (fda_balance ?s (t_buyer_id ?t) + toDecimal 95)"
    by (simp add: sample_ledger_def sample_trade_def fda_balance_def decimal_95
          round_scale_def)
  have x: "95 = round_scale 18 (toDecimal 95)" by (simp add: decimal_95 round_scale_def)
  have fa: "5 = round_scale 8 (toDecimal 5)" by (simp add: decimal_5 round_scale_def)
  have fr: "1 / 20 = round_scale 6 (toDecimal (3602879701896397 / 72057594037927936))"
    by (simp add: decimal_rate round_scale_def)
  have b: "\<bar>95 :: rat\<bar> < 10 ^ 12" "\<bar>5 :: rat\<bar> < 10 ^ 12" "\<bar>1 / 20 :: rat\<bar> < 10 ^ 4"
    by simp_all
  have b1: "fda_balance ?s (Suc 0) = 10" by code_simp
  have by': "t_buyer_id ?t = 2" by code_simp
  from release_fee_payout[OF g st sl rate fee payout c b(1) x b(1) fa b(2) fr b(3), of 50]
  have 1: "fda_balance (snd (release ?s 1 1 50)) 2 = 95
     \<and> fda_balance (snd (release ?s 1 1 50)) 1 = 10
     \<and> map_sum id (map_option t_fee_amount) (fst (release ?s 1 1 50)) = Inr (Some (Some 5))"
    unfolding Let_def by' by (simp add: b1)
  have g': "get_trade small_ledger 1 = Some ?u" by code_simp
  have st': "t_status ?u = ''PAID_PENDING_RELEASE''" by code_simp
  have sl': "t_seller_id ?u = 1" by code_simp
  have rate': "fdiv (case settings small_ledger ''p2p_fee_rate'' of None \<Rightarrow> Fin 0
                    | Some v \<Rightarrow> round_double v) (Fin 100)
              = Fin (3602879701896397 / 72057594037927936)"
    by (simp add: small_ledger_def double_5 double_div_5_100)
  have fee': "fmul (round_double (t_amount ?u)) (Fin (3602879701896397 / 72057594037927936))
              = Fin (3963167672086037 / 72057594037927936)"
    by (simp add: double_11_10 double_mul_11_10)
  have payout': "fsub (round_double (t_amount ?u))
                   (Fin (3963167672086037 / 72057594037927936))
                 = Fin (4706261610602169 / 4503599627370496)"
    by (simp add: double_11_10 double_sub_11_10)
  have c': "5225000000000001 / 5000000000000000
              = round_scale 18 (fda_balance small_ledger (t_buyer_id ?u)
                                + toDecimal (4706261610602169 / 4503599627370496))"
    by (simp add: small_ledger_def sample_trade_def fda_balance_def decimal_payout_11_10
          round_scale_def)
  have x': "5225000000000001 / 5000000000000000
              = round_scale 18 (toDecimal (4706261610602169 / 4503599627370496))"
    by (simp add: decimal_payout_11_10 round_scale_def)
  have fa': "11 / 200 = round_scale 8 (toDecimal (3963167672086037 / 72057594037927936))"
    by (simp add: decimal_fee_11_10 round_scale_def)
  have b': "\<bar>5225000000000001 / 5000000000000000 :: rat\<bar> < 10 ^ 12"
    "\<bar>11 / 200 :: rat\<bar> < 10 ^ 12"
    by simp_all
  have by'': "t_buyer_id ?u = 2" by code_simp
  from release_fee_payout[OF g' st' sl' rate' fee' payout' c' b'(1) x' b'(1) fa' b'(2) fr b(3),
         of 50]
  have 2: "fda_balance (snd (release small_ledger 1 1 50)) 2
       = 10450000000000002 / 10000000000000000
     \<and> map_sum id (map_option t_fee_amount) (fst (release small_ledger 1 1 50))
       = Inr (Some (Some (55 / 1000)))
     \<and> map_sum id (map_option t_fee_rate) (fst (release small_ledger 1 1 50))
       = Inr (Some (Some (5 / 100)))"
    unfolding Let_def by'' by simp
  from 1 2 show ?thesis by blast
qed



subsection \<open>Dispute arbiter\<close>

lemma openDispute_run:
  assumes "get_trade s tid = Some trade" and "reason \<noteq> []"
    and "uid = t_buyer_id trade \<or> uid = t_seller_id trade"
    and "dispute_window trade (t_buyer_id trade = uid) now = None"
    and "get_dispute_of_trade s tid = None"
  shows "dispute_opened (openDispute s uid tid reason now) uid tid"
proof -
  let ?did = "new_id (map d_id (disputes s))"
  let ?d = "\<lparr>d_id = ?did, d_trade_id = tid, d_raised_by_id = uid, d_status = ''OPEN'',
             d_reason = reason, d_resolution_note = None, d_resolved_by_id = None,
             d_resolved_at = None\<rparr>"
  let ?s1 = "s\<lparr>disputes := disputes s @ [?d]\<rparr>"
  let ?f = "\<lambda>t. t\<lparr>t_status := ''DISPUTED''\<rparr>"
  let ?s2 = "update_trade tid ?f ?s1"
  have run: "openDispute s uid tid reason now = (Inr (get_dispute ?s1 ?did), ?s2)"
    using assms by (auto simp: openDispute_def Let_def)
  have d1: "get_dispute ?s1 ?did = Some ?d"
    using find_append_new[of d_id ?d "disputes s"] by (simp add: get_dispute_def)
  have d2: "get_dispute_of_trade ?s2 tid = Some ?d"
    using assms(5) by (simp add: get_dispute_of_trade_def update_trade_def find_app)
  have "get_trade ?s1 tid = Some trade"
    using assms(1) by (simp add: get_trade_def)
  then have t2: "get_trade ?s2 tid = Some (?f trade)"
    using get_trade_update[of ?f tid ?s1] by simp
  show ?thesis
    unfolding run dispute_opened_def using d1 d2 t2 by simp
qed

text \<open>
  C6. The buyer of a trade in \<open>PAID_PENDING_RELEASE\<close>, paid at \<open>paidAt\<close>, gives a reason and
  raises a dispute: up to and including \<open>paidAt\<close> plus two hours (7200000 ms) the dispute is
  opened, provided the trade has none yet; later than that the request fails with
  \<open>WindowExpired\<close> and changes nothing. At 1h59m (7140000 ms) it is opened, at 2h01m
  (7260000 ms) it fails.
\<close>

theorem buyer_dispute_window:
  assumes "get_trade s tid = Some trade" and "t_status trade = ''PAID_PENDING_RELEASE''"
    and "t_buyer_id trade = uid" and "t_paid_at trade = Some (Date paidAt)"
    and "reason \<noteq> []"
  shows "(now \<le> paidAt + 7200000 \<and> get_dispute_of_trade s tid = None
            \<longrightarrow> dispute_opened (openDispute s uid tid reason now) uid tid)
       \<and> (paidAt + 7200000 < now
            \<longrightarrow> openDispute s uid tid reason now = (Inl WindowExpired, s))
       \<and> (get_dispute_of_trade s tid = None
            \<longrightarrow> dispute_opened (openDispute s uid tid reason (paidAt + 7140000)) uid tid)
       \<and> openDispute s uid tid reason (paidAt + 7260000) = (Inl WindowExpired, s)"
proof -
  have w: "\<And>t. dispute_window trade (t_buyer_id trade = uid) t
             = (if paidAt + 7200000 < t then Some WindowExpired else None)"
    using assms by (simp add: dispute_window_def Let_def)
  have ok: "\<And>t. t \<le> paidAt + 7200000 \<Longrightarrow> get_dispute_of_trade s tid = None
             \<Longrightarrow> dispute_opened (openDispute s uid tid reason t) uid tid"
    using assms w by (intro openDispute_run) auto
  have late: "\<And>t. paidAt + 7200000 < t
             \<Longrightarrow> openDispute s uid tid reason t = (Inl WindowExpired, s)"
    using assms w by (simp add: openDispute_def Let_def)
  show ?thesis using ok[of now] ok[of "paidAt + 7140000"] late[of now] late[of "paidAt + 7260000"]
    by simp
qed

theorem buyer_dispute_window_witness:
  "dispute_opened
     (openDispute (sample_ledger ''PAID_PENDING_RELEASE'' (Some (Date 1000)) []) 2 1
        ''no tokens received'' 7201000) 2 1
   \<and> openDispute (sample_ledger ''PAID_PENDING_RELEASE'' (Some (Date 1000)) []) 2 1
        ''no tokens received'' 7201001
     = (Inl WindowExpired, sample_ledger ''PAID_PENDING_RELEASE'' (Some (Date 1000)) [])"
proof -
  let ?s = "sample_ledger ''PAID_PENDING_RELEASE'' (Some (Date 1000)) []"
  let ?t = "sample_trade ''PAID_PENDING_RELEASE'' (Some (Date 1000))"
  have g: "get_trade ?s 1 = Some ?t" by code_simp
  have st: "t_status ?t = ''PAID_PENDING_RELEASE''" by code_simp
  have b: "t_buyer_id ?t = 2" by code_simp
  have p: "t_paid_at ?t = Some (Date 1000)" by code_simp
  have r: "''no tokens received'' \<noteq> []" by simp
  have n: "get_dispute_of_trade ?s 1 = None" by code_simp
  from buyer_dispute_window[OF g st b p r, of 7201000] n
  have 1: "dispute_opened (openDispute ?s 2 1 ''no tokens received'' 7201000) 2 1" by simp
  from buyer_dispute_window[OF g st b p r, of 7201001]
  have 2: "openDispute ?s 2 1 ''no tokens received'' 7201001 = (Inl WindowExpired, ?s)" by simp
  from 1 2 show ?thesis by blast
qed

text \<open>
  C10. Apart from the buyer's window, opening a dispute looks at no status of the trade: on
  a trade without a dispute, the buyer or the seller who gives a reason opens one whatever
  the status, \<open>COMPLETED\<close> and \<open>CANCELLED\<close> included, unless the caller is the buyer and the
  status is \<open>PAID_PENDING_RELEASE\<close>; the trade is then \<open>DISPUTED\<close>.
\<close>

theorem openDispute_any_status:
  assumes "get_trade s tid = Some trade" and "reason \<noteq> []"
    and "uid = t_buyer_id trade \<or> uid = t_seller_id trade"
    and "get_dispute_of_trade s tid = None"
    and "\<not> (t_buyer_id trade = uid \<and> t_status trade = ''PAID_PENDING_RELEASE'')"
  shows "dispute_opened (openDispute s uid tid reason now) uid tid"
proof -
  have "dispute_window trade (t_buyer_id trade = uid) now = None"
    using assms(5) by (auto simp: dispute_window_def)
  with assms show ?thesis by (intro openDispute_run)
qed

theorem openDispute_any_status_witness:
  "dispute_opened
     (openDispute (sample_ledger ''COMPLETED'' (Some (Date 1000)) []) 2 1
        ''no tokens received'' 90000000) 2 1
   \<and> dispute_opened
     (openDispute (sample_ledger ''CANCELLED'' None []) 1 1 ''buyer never paid'' 90000000) 1 1"
proof -
  let ?s = "sample_ledger ''COMPLETED'' (Some (Date 1000)) []"
  let ?t = "sample_trade ''COMPLETED'' (Some (Date 1000))"
  let ?s' = "sample_ledger ''CANCELLED'' None []"
  let ?t' = "sample_trade ''CANCELLED'' None"
  have g: "get_trade ?s 1 = Some ?t" by code_simp
  have r: "''no tokens received'' \<noteq> []" by simp
  have p: "2 = t_buyer_id ?t \<or> 2 = t_seller_id ?t" by code_simp
  have n: "get_dispute_of_trade ?s 1 = None" by code_simp
  have w: "\<not> (t_buyer_id ?t = 2 \<and> t_status ?t = ''PAID_PENDING_RELEASE'')" by code_simp
  have g': "get_trade ?s' 1 = Some ?t'" by code_simp
  have r': "''buyer never paid'' \<noteq> []" by simp
  have p': "1 = t_buyer_id ?t' \<or> 1 = t_seller_id ?t'" by code_simp
  have n': "get_dispute_of_trade ?s' 1 = None" by code_simp
  have w': "\<not> (t_buyer_id ?t' = 1 \<and> t_status ?t' = ''PAID_PENDING_RELEASE'')" by code_simp
  from openDispute_any_status[OF g r p n w, of 90000000]
       openDispute_any_status[OF g' r' p' n' w', of 90000000]
  show ?thesis by blast
qed

text \<open>
  C2. Resolving a dispute with the action \<open>release\<close> is claimed to credit the buyer and to
  withhold the fee as \<open>release\<close> does, from the setting \<open>p2p_fee_rate\<close>. With the rate set to
  5 and trade 1 over 100: released by the seller, the trade pays Bob 95 and records a fee of
  5; disputed and released by the arbiter, the same trade pays Bob 99, the rate being
  \<open>trade.fee_rate || 0.01\<close>, and the fee recorded on the trade stays 0.
\<close>

theorem resolveDispute_release_fee:
  "fda_balance
     (snd (release (sample_ledger ''PAID_PENDING_RELEASE'' (Some (Date 0)) []) 1 1 50)) 2 = 95
   \<and> map_option t_fee_amount
       (get_trade
          (snd (release (sample_ledger ''PAID_PENDING_RELEASE'' (Some (Date 0)) []) 1 1 50)) 1)
     = Some (Some 5)
   \<and> fda_balance
       (snd (resolveDispute (sample_ledger ''DISPUTED'' (Some (Date 0)) [sample_dispute])
               9 True 1 ''RESOLVED'' None ''release'' 50)) 2 = 99
   \<and> map_option t_fee_amount
       (get_trade
          (snd (resolveDispute (sample_ledger ''DISPUTED'' (Some (Date 0)) [sample_dispute])
                  9 True 1 ''RESOLVED'' None ''release'' 50)) 1)
     = Some (Some 0)
   \<and> map_option t_status
       (get_trade
          (snd (resolveDispute (sample_ledger ''DISPUTED'' (Some (Date 0)) [sample_dispute])
                  9 True 1 ''RESOLVED'' None ''release'' 50)) 1)
     = Some ''COMPLETED''"
proof -
  have released:
    "fda_balance
       (snd (release (sample_ledger ''PAID_PENDING_RELEASE'' (Some (Date 0)) []) 1 1 50)) 2
     = 95
     \<and> map_option t_fee_amount
         (get_trade
            (snd (release (sample_ledger ''PAID_PENDING_RELEASE'' (Some (Date 0)) []) 1 1 50))
            1)
       = Some (Some 5)"
    unfolding release_sample snd_conv
    by (simp add: fda_balance_def get_trade_def sample_trade_def)
  have resolved:
    "fda_balance
       (snd (resolveDispute (sample_ledger ''DISPUTED'' (Some (Date 0)) [sample_dispute])
               9 True 1 ''RESOLVED'' None ''release'' 50)) 2 = 99
     \<and> map_option t_fee_amount
         (get_trade
            (snd (resolveDispute (sample_ledger ''DISPUTED'' (Some (Date 0)) [sample_dispute])
                    9 True 1 ''RESOLVED'' None ''release'' 50)) 1)
       = Some (Some 0)
     \<and> map_option t_status
         (get_trade
            (snd (resolveDispute (sample_ledger ''DISPUTED'' (Some (Date 0)) [sample_dispute])
                    9 True 1 ''RESOLVED'' None ''release'' 50)) 1)
       = Some ''COMPLETED''"
    by code_simp
  from released resolved show ?thesis by blast
qed

subsection \<open>Funding from the external system\<close>

lemma funding_bad_amount:
  assumes "fr_amount rq = JUndefined \<or> fr_amount rq = JNull \<or> fr_amount rq = JString []
       \<or> parseFloat (fr_amount rq) = NaN \<or> fle (parseFloat (fr_amount rq)) (Fin 0)"
  shows "transferToMcWallet s rq now = (Inl ValidationError, s)"
proof (cases "fr_userId rq = [] \<or> fr_amount rq = JUndefined \<or> fr_amount rq = JNull
                 \<or> fr_amount rq = JString []")
  case True
  then show ?thesis unfolding transferToMcWallet_def by auto
next
  case False
  then have "parseFloat (fr_amount rq) = NaN \<or> fle (parseFloat (fr_amount rq)) (Fin 0)"
    using assms by blast
  then show ?thesis
    unfolding transferToMcWallet_def Let_def using False by auto
qed

lemma funding_bad_period:
  assumes "fr_holdingPeriod rq = Some hp" and "hp \<noteq> []"
    and "case match_months (trim (toUpperCase hp)) of None \<Rightarrow> True | Some ds \<Rightarrow> parseInt ds = 0"
  shows "transferToMcWallet s rq now = (Inl ValidationError, s)
        \<or> transferToMcWallet s rq now = (Inl InvalidPeriod, s)"
proof -
  have c: "calculateExpirationDate now (fr_holdingPeriod rq) = Inl InvalidPeriod"
    using assms
    by (cases "match_months (trim (toUpperCase hp))")
       (simp_all add: calculateExpirationDate_def Let_def)
  show ?thesis
  proof (cases "fr_userId rq = [] \<or> fr_amount rq = JUndefined \<or> fr_amount rq = JNull
                 \<or> fr_amount rq = JString []")
    case True
    then show ?thesis unfolding transferToMcWallet_def by auto
  next
    case valid: False
    show ?thesis
    proof (cases "parseFloat (fr_amount rq) = NaN \<or> fle (parseFloat (fr_amount rq)) (Fin 0)")
      case True
      then show ?thesis using funding_bad_amount[of rq s now] by blast
    next
      case False
      then show ?thesis using valid c by (simp add: transferToMcWallet_def Let_def)
    qed
  qed
qed

lemma period_6m:
  "trim (toUpperCase ''6m'') = ''6M''" "toUpperCase ''6m'' = ''6M''" "trim ''6M'' = ''6M''"
  "match_months ''6M'' = Some ''6''" "parseInt ''6'' = 6" "match_months ''6m'' = None"
  by code_simp+

lemma six_months: "setMonth 0 6 = Some 15638400000"
  by code_simp

lemma six_months_stamp: "timestamp_column 15638400000 = Some 15638400000"
  by code_simp

lemma fund_6m_run:
  "transferToMcWallet ledger0 fund_6m 0
   = (Inr \<lparr>fu_localUserId = 2, fu_amount = Fin 10, fu_oldBalance = Fin 0,
            fu_newBalance = Fin 10, fu_expiresAt = Some 15638400000, fu_holdingId = Some 1\<rparr>,
      ledger0\<lparr>internal_balances := [1 \<mapsto> 60, 2 \<mapsto> 10],
        fda_holdings := [\<lparr>h_id = 1, h_user_id = 2, h_amount = 10, h_holding_period = ''6M'',
                           h_expires_at = 15638400000, h_created_at = 0\<rparr>]\<rparr>)"
  by (simp add: transferToMcWallet_def fund_6m_def ledger0_def alice_bob_def parseFloat_def
        fle_def calculateExpirationDate_def period_6m six_months insert_balance_def
        insert_holding_def six_months_stamp new_id_def
        fda_balance_def column_eval double_0 double_10 decimal_10 Let_def)

lemma period_long:
  "trim (toUpperCase ''0000000000000000000006M'') = ''0000000000000000000006M''"
  "toUpperCase ''0000000000000000000006M'' = ''0000000000000000000006M''"
  "trim ''0000000000000000000006M'' = ''0000000000000000000006M''"
  "match_months ''0000000000000000000006M'' = Some ''0000000000000000000006''"
  "parseInt ''0000000000000000000006'' = 6"
  "varchar 20 ''0000000000000000000006M'' = None"
  by code_simp+

text \<open>
  The balance is written before the holding, and not in one transaction with it: a period
  of 23 characters passes the validation and is refused by the column of 20, so the request
  fails after Bob's balance has been credited.
\<close>

lemma fund_long_keeps_credit:
  "transferToMcWallet ledger0 fund_long 0
   = (Inl InternalError, ledger0\<lparr>internal_balances := [1 \<mapsto> 60, 2 \<mapsto> 10]\<rparr>)"
  by (simp add: transferToMcWallet_def fund_long_def ledger0_def alice_bob_def parseFloat_def
        fle_def calculateExpirationDate_def period_long six_months insert_balance_def
        insert_holding_def six_months_stamp new_id_def fda_balance_def numeric_column_def
        round_scale_def numeric_param_def store_number_def double_0 double_10 decimal_10
        Let_def)

text \<open>
  C8, as claimed: every holding period that does not match \<open>^\d+M$\<close> is rejected. The period
  is put in upper case and trimmed before it is matched: \<open>6m\<close> does not match, and the
  request is served, Bob's balance credited and a holding written that ends six months
  after the epoch, the time of the request.
\<close>

theorem funding_lower_case_period_counterexample:
  "match_months ''6m'' = None
   \<and> fst (transferToMcWallet ledger0 fund_6m 0)
     = Inr \<lparr>fu_localUserId = 2, fu_amount = Fin 10, fu_oldBalance = Fin 0,
             fu_newBalance = Fin 10, fu_expiresAt = Some 15638400000,
             fu_holdingId = Some 1\<rparr>
   \<and> fda_balance ledger0 2 = 0
   \<and> fda_balance (snd (transferToMcWallet ledger0 fund_6m 0)) 2 = 10
   \<and> fda_holdings ledger0 = []
   \<and> fda_holdings (snd (transferToMcWallet ledger0 fund_6m 0))
     = [\<lparr>h_id = 1, h_user_id = 2, h_amount = 10, h_holding_period = ''6M'',
          h_expires_at = 15638400000, h_created_at = 0\<rparr>]"
  unfolding fund_6m_run fst_conv snd_conv
  by (simp add: period_6m fda_balance_def ledger0_def)

text \<open>
  C8, amended: the funding operation rejects an amount that is missing, not a number or not
  positive, and a holding period, when one is given, whose upper-cased and trimmed text does
  not match \<open>^\d+M$\<close> or counts zero months; after each of these rejections the store is as
  it was before the request.
\<close>

theorem funding_rejects_before_mutation:
  "((fr_amount rq = JUndefined \<or> fr_amount rq = JNull \<or> fr_amount rq = JString []
       \<or> parseFloat (fr_amount rq) = NaN \<or> fle (parseFloat (fr_amount rq)) (Fin 0))
      \<longrightarrow> transferToMcWallet s rq now = (Inl ValidationError, s))
   \<and> ((\<exists>hp. fr_holdingPeriod rq = Some hp \<and> hp \<noteq> []
            \<and> (case match_months (trim (toUpperCase hp)) of
                  None \<Rightarrow> True
                | Some ds \<Rightarrow> parseInt ds = 0))
      \<longrightarrow> transferToMcWallet s rq now = (Inl ValidationError, s)
        \<or> transferToMcWallet s rq now = (Inl InvalidPeriod, s))"
  using funding_bad_amount[of rq s now] funding_bad_period[of rq _ s now]
  by blast

theorem funding_rejects_before_mutation_witness:
  "transferToMcWallet ledger0 fund_1y 0 = (Inl InvalidPeriod, ledger0)
   \<and> transferToMcWallet ledger0 (fund_1y\<lparr>fr_holdingPeriod := Some ''0M''\<rparr>) 0
     = (Inl InvalidPeriod, ledger0)
   \<and> transferToMcWallet ledger0 (fund_6m\<lparr>fr_amount := JNumber (- 3)\<rparr>) 0
     = (Inl ValidationError, ledger0)
   \<and> transferToMcWallet ledger0 (fund_6m\<lparr>fr_amount := JString ''ten''\<rparr>) 0
     = (Inl ValidationError, ledger0)"
proof -
  have p: "\<exists>hp. fr_holdingPeriod fund_1y = Some hp \<and> hp \<noteq> []
            \<and> (case match_months (trim (toUpperCase hp)) of
                  None \<Rightarrow> True
                | Some ds \<Rightarrow> parseInt ds = 0)"
  proof (intro exI conjI)
    show "fr_holdingPeriod fund_1y = Some ''1Y''" by code_simp
    show "''1Y'' \<noteq> []" by simp
    show "case match_months (trim (toUpperCase ''1Y'')) of
            None \<Rightarrow> True | Some ds \<Rightarrow> parseInt ds = 0" by code_simp
  qed
  have f: "fst (transferToMcWallet ledger0 fund_1y 0) = Inl InvalidPeriod"
    by (simp add: transferToMcWallet_def fund_1y_def parseFloat_def fle_def double_10
          calculateExpirationDate_def Let_def)
       code_simp
  from funding_rejects_before_mutation[of fund_1y ledger0 0] p f
  have 1: "transferToMcWallet ledger0 fund_1y 0 = (Inl InvalidPeriod, ledger0)"
    by auto
  let ?z = "fund_1y\<lparr>fr_holdingPeriod := Some ''0M''\<rparr>"
  have p': "\<exists>hp. fr_holdingPeriod ?z = Some hp \<and> hp \<noteq> []
            \<and> (case match_months (trim (toUpperCase hp)) of
                  None \<Rightarrow> True
                | Some ds \<Rightarrow> parseInt ds = 0)"
  proof (intro exI conjI)
    show "fr_holdingPeriod ?z = Some ''0M''" by simp
    show "''0M'' \<noteq> []" by simp
    show "case match_months (trim (toUpperCase ''0M'')) of
            None \<Rightarrow> True | Some ds \<Rightarrow> parseInt ds = 0" by code_simp
  qed
  have f': "fst (transferToMcWallet ledger0 ?z 0) = Inl InvalidPeriod"
    by (simp add: transferToMcWallet_def fund_1y_def parseFloat_def fle_def double_10
          calculateExpirationDate_def Let_def)
       code_simp
  from funding_rejects_before_mutation[of ?z ledger0 0] p' f'
  have 2: "transferToMcWallet ledger0 ?z 0 = (Inl InvalidPeriod, ledger0)"
    by auto
  have a: "fle (parseFloat (fr_amount (fund_6m\<lparr>fr_amount := JNumber (- 3)\<rparr>))) (Fin 0)"
    by (simp add: parseFloat_def fle_def double_eval)
  from funding_rejects_before_mutation[of "fund_6m\<lparr>fr_amount := JNumber (- 3)\<rparr>" ledger0 0] a
  have 3: "transferToMcWallet ledger0 (fund_6m\<lparr>fr_amount := JNumber (- 3)\<rparr>) 0
             = (Inl ValidationError, ledger0)"
    by blast
  have n: "parseFloat (fr_amount (fund_6m\<lparr>fr_amount := JString ''ten''\<rparr>)) = NaN"
    by code_simp
  from funding_rejects_before_mutation[of "fund_6m\<lparr>fr_amount := JString ''ten''\<rparr>" ledger0 0]
    n
  have 4: "transferToMcWallet ledger0 (fund_6m\<lparr>fr_amount := JString ''ten''\<rparr>) 0
             = (Inl ValidationError, ledger0)"
    by blast
  from 1 2 3 4 show ?thesis by blast
qed

end
